theory Spec2Isabelle
  imports Complex_Main "HOL-Library.Sublist"
begin

section \<open>Python values\<close>

text \<open>
  The scripts pass JSON-like data around as untyped dictionaries.  A value stored in such a
  dictionary is a \<open>jval\<close>; a dictionary is an association list from string keys to
  values (a Python \<open>dict\<close> has no duplicate keys; \<open>map_of\<close> reads the first binding).
  Strings are lists of 8-bit characters: the model covers ASCII text.
\<close>

datatype jval =
    JNull
  | JBool bool
  | JNum real
  | JStr string
  | JList "jval list"
  | JDict "(string \<times> jval) list"

type_synonym pydict = "(string \<times> jval) list"

text \<open>\<open>d.get(k, default)\<close>; \<open>d.get(k)\<close> is \<open>dict_get d k JNull\<close>.\<close>

definition dict_get :: "pydict \<Rightarrow> string \<Rightarrow> jval \<Rightarrow> jval" where
  "dict_get d k dflt = (case map_of d k of Some v \<Rightarrow> v | None \<Rightarrow> dflt)"

section \<open>Python string operations\<close>

text \<open>\<open>s.lower()\<close> on ASCII text: the letters A to Z are mapped to a to z.\<close>

definition lower_char :: "char \<Rightarrow> char" where
  "lower_char c =
    (case map_of (zip ''ABCDEFGHIJKLMNOPQRSTUVWXYZ'' ''abcdefghijklmnopqrstuvwxyz'') c of
       Some l \<Rightarrow> l
     | None \<Rightarrow> c)"

definition lower :: "string \<Rightarrow> string" where
  "lower s = map lower_char s"

text \<open>\<open>k in s\<close> for strings: \<open>k\<close> occurs in \<open>s\<close> as a contiguous substring.\<close>

fun str_in :: "string \<Rightarrow> string \<Rightarrow> bool" where
  "str_in k [] = (k = [])"
| "str_in k (c # s) = (prefix k (c # s) \<or> str_in k s)"

text \<open>\<open>any(k in s for k in keywords)\<close>\<close>

definition any_in :: "string list \<Rightarrow> string \<Rightarrow> bool" where
  "any_in ks s = list_ex (\<lambda>k. str_in k s) ks"

text \<open>\<open>sum(1 for k in keywords if k in s)\<close>\<close>

definition count_in :: "string list \<Rightarrow> string \<Rightarrow> nat" where
  "count_in ks s = length (filter (\<lambda>k. str_in k s) ks)"

text \<open>
  \<open>s.split()\<close>: the maximal runs of characters that are not whitespace.  The ASCII
  whitespace characters are tab, line feed, vertical tab, form feed, carriage return, the
  four separators 0x1C to 0x1F and the space.
\<close>

definition is_space :: "char \<Rightarrow> bool" where
  "is_space c \<longleftrightarrow>
    c \<in> set [CHR 0x20, CHR 0x0A, CHR 0x09, CHR 0x0B, CHR 0x0C, CHR 0x0D,
               CHR 0x1C, CHR 0x1D, CHR 0x1E, CHR 0x1F]"

fun split_from :: "string \<Rightarrow> string \<Rightarrow> string list" where
  "split_from word [] = (if word = [] then [] else [word])"
| "split_from word (c # s) =
    (if is_space c then (if word = [] then split_from [] s else word # split_from [] s)
     else split_from (word @ [c]) s)"

definition split :: "string \<Rightarrow> string list" where
  "split s = split_from [] s"

text \<open>\<open>len(s.split())\<close>\<close>

definition word_count :: "string \<Rightarrow> nat" where
  "word_count s = length (split s)"

text \<open>\<open>sep.join(parts)\<close>\<close>

fun join :: "string \<Rightarrow> string list \<Rightarrow> string" where
  "join sep [] = []"
| "join sep [x] = x"
| "join sep (x # y # ys) = x @ sep @ join sep (y # ys)"

section \<open>Regular expressions\<close>

text \<open>
  The patterns of the scripts use literal characters, the dot (any character but a line
  feed), the classes \<open>\d\<close> and \<open>\s\<close>, grouping, alternation, \<open>?\<close>, \<open>*\<close>, \<open>+\<close> and a
  counted repetition.  \<open>re.search(pattern, s)\<close> finds a match iff some substring of \<open>s\<close>
  belongs to the language of the pattern; the search below decides this with derivatives.
\<close>

datatype char_class = Lit char | Dot | Digit | Whitespace

fun class_matches :: "char_class \<Rightarrow> char \<Rightarrow> bool" where
  "class_matches (Lit a) c = (a = c)"
| "class_matches Dot c = (c \<noteq> CHR 0x0A)"
| "class_matches Digit c = (c \<in> set ''0123456789'')"
| "class_matches Whitespace c = is_space c"

datatype regex =
    Zero
  | Eps
  | Sym char_class
  | Seq regex regex
  | Alt regex regex
  | Star regex

text \<open>Constructors that drop the empty language and the empty word where they are neutral.\<close>

fun seq :: "regex \<Rightarrow> regex \<Rightarrow> regex" where
  "seq Zero r = Zero"
| "seq r Zero = Zero"
| "seq Eps r = r"
| "seq r s = Seq r s"

fun alt :: "regex \<Rightarrow> regex \<Rightarrow> regex" where
  "alt Zero r = r"
| "alt r Zero = r"
| "alt r s = Alt r s"

fun nullable :: "regex \<Rightarrow> bool" where
  "nullable Zero = False"
| "nullable Eps = True"
| "nullable (Sym k) = False"
| "nullable (Seq r s) = (nullable r \<and> nullable s)"
| "nullable (Alt r s) = (nullable r \<or> nullable s)"
| "nullable (Star r) = True"

fun deriv :: "char \<Rightarrow> regex \<Rightarrow> regex" where
  "deriv c Zero = Zero"
| "deriv c Eps = Zero"
| "deriv c (Sym k) = (if class_matches k c then Eps else Zero)"
| "deriv c (Seq r s) =
    (if nullable r then alt (seq (deriv c r) s) (deriv c s) else seq (deriv c r) s)"
| "deriv c (Alt r s) = alt (deriv c r) (deriv c s)"
| "deriv c (Star r) = seq (deriv c r) (Star r)"

text \<open>
  The search reads the string once.  \<open>active\<close> holds the derivatives of the matches
  begun at earlier positions; a match is found as soon as the pattern or an active
  derivative accepts the empty word.  \<open>run\<close> returns \<open>None\<close> when a match is found and the
  active derivatives at the end of the string otherwise.
\<close>

definition step :: "regex \<Rightarrow> regex list \<Rightarrow> char \<Rightarrow> regex list" where
  "step r active c = filter (\<lambda>d. d \<noteq> Zero) (map (deriv c) (r # active))"

fun run :: "regex \<Rightarrow> regex list \<Rightarrow> string \<Rightarrow> regex list option" where
  "run r active [] = Some active"
| "run r active (c # s) =
    (if list_ex nullable (r # active) then None else run r (step r active c) s)"

text \<open>\<open>re.search(pattern, s) is not None\<close>\<close>

definition search :: "regex \<Rightarrow> string \<Rightarrow> bool" where
  "search r s =
    (case run r [] s of None \<Rightarrow> True | Some active \<Rightarrow> list_ex nullable (r # active))"

text \<open>Building patterns: a literal string, a sequence, alternatives, \<open>r?\<close> and \<open>r+\<close>.\<close>

fun lit :: "string \<Rightarrow> regex" where
  "lit [] = Eps"
| "lit [c] = Sym (Lit c)"
| "lit (c # s) = Seq (Sym (Lit c)) (lit s)"

fun seqs :: "regex list \<Rightarrow> regex" where
  "seqs [] = Eps"
| "seqs [r] = r"
| "seqs (r # rs) = Seq r (seqs rs)"

fun alts :: "regex list \<Rightarrow> regex" where
  "alts [] = Zero"
| "alts [r] = r"
| "alts (r # rs) = Alt r (alts rs)"

definition opt :: "regex \<Rightarrow> regex" where
  "opt r = Alt r Eps"

definition plus :: "regex \<Rightarrow> regex" where
  "plus r = Seq r (Star r)"

text \<open>\<open>.*\<close>\<close>

definition any_star :: regex where
  "any_star = Star (Sym Dot)"

text \<open>
  The pattern \<open>\b\d{4}\b\<close> has word boundaries, which depend on the character before
  the match: four digits, not preceded and not followed by a word character.
\<close>

definition is_word_char :: "char \<Rightarrow> bool" where
  "is_word_char c \<longleftrightarrow>
    c \<in> set ''abcdefghijklmnopqrstuvwxyzABCDEFGHIJKLMNOPQRSTUVWXYZ0123456789_''"

definition year_here :: "char option \<Rightarrow> string \<Rightarrow> bool" where
  "year_here previous s =
    ((case previous of None \<Rightarrow> True | Some p \<Rightarrow> \<not> is_word_char p)
     \<and> (case s of
          d1 # d2 # d3 # d4 # rest \<Rightarrow>
            list_all (class_matches Digit) [d1, d2, d3, d4]
            \<and> (case rest of [] \<Rightarrow> True | n # rest' \<Rightarrow> \<not> is_word_char n)
        | _ \<Rightarrow> False))"

fun search_year_from :: "char option \<Rightarrow> string \<Rightarrow> bool" where
  "search_year_from previous [] = False"
| "search_year_from previous (c # s) =
    (year_here previous (c # s) \<or> search_year_from (Some c) s)"

definition search_year :: "string \<Rightarrow> bool" where
  "search_year s = search_year_from None s"

section \<open>Scanning a long string piece by piece\<close>

text \<open>
  The functions of this section compute the word count, the substring test and the
  pattern search of a concatenation from its pieces, carrying over the piece boundaries
  what the scan needs: whether a word is open, the last characters read, the active
  derivatives.  They are proved equal to the operations above and serve to evaluate them
  on the long fixed answers.
\<close>

fun word_starts :: "bool \<Rightarrow> string \<Rightarrow> nat" where
  "word_starts in_word [] = 0"
| "word_starts in_word (c # s) =
    (if is_space c then word_starts False s
     else (if in_word then 0 else 1) + word_starts True s)"

fun in_word_after :: "bool \<Rightarrow> string \<Rightarrow> bool" where
  "in_word_after in_word [] = in_word"
| "in_word_after in_word (c # s) = in_word_after (\<not> is_space c) s"

fun word_starts_pieces :: "bool \<Rightarrow> string list \<Rightarrow> nat" where
  "word_starts_pieces in_word [] = 0"
| "word_starts_pieces in_word (p # ps) =
    word_starts in_word p + word_starts_pieces (in_word_after in_word p) ps"

definition keep_last :: "nat \<Rightarrow> string \<Rightarrow> string" where
  "keep_last n s = drop (length s - n) s"

fun str_in_pieces :: "string \<Rightarrow> string \<Rightarrow> string list \<Rightarrow> bool" where
  "str_in_pieces k carry [] = str_in k carry"
| "str_in_pieces k carry (p # ps) =
    (if str_in k (carry @ p) then True
     else str_in_pieces k (keep_last (length k - 1) (carry @ p)) ps)"

fun run_pieces :: "regex \<Rightarrow> regex list \<Rightarrow> string list \<Rightarrow> regex list option" where
  "run_pieces r active [] = Some active"
| "run_pieces r active (p # ps) =
    (case run r active p of None \<Rightarrow> None | Some active' \<Rightarrow> run_pieces r active' ps)"

definition search_pieces :: "regex \<Rightarrow> string list \<Rightarrow> bool" where
  "search_pieces r ps =
    (case run_pieces r [] ps of None \<Rightarrow> True | Some active \<Rightarrow> list_ex nullable (r # active))"

section \<open>namespaced\_rag\_query.py\<close>

text \<open>
  The vector store and the completion service are external.  A hit of the store
  (\<open>QueryResult\<close> of the client library) has an id, a score and optional metadata.  The
  store is a function from the request it is sent to either the exception it raises or
  the hits it returns; the completion service likewise returns the texts of its choices.
\<close>

datatype py_exception = PyException string

text \<open>\<open>str(e)\<close>\<close>

fun exception_str :: "py_exception \<Rightarrow> string" where
  "exception_str (PyException msg) = msg"

record raw_result =
  result_id :: string
  score :: real
  metadata :: "pydict option"

record query_request =
  data :: string
  top_k :: int
  include_metadata :: bool

type_synonym vector_index = "query_request \<Rightarrow> py_exception + raw_result list"

text \<open>The dictionary \<open>chunk_info\<close> built for every kept hit.\<close>

record chunk_info =
  chunk_id :: string
  chunk_score :: real
  chunk_title :: jval
  chunk_type :: jval
  chunk_category :: jval
  chunk_content :: jval
  chunk_tags :: jval
  chunk_namespace :: jval

text \<open>
  \<open>result.metadata.get(key, default) if result.metadata else default\<close>: metadata that
  is \<open>None\<close> or an empty dictionary is falsy.
\<close>

definition metadata_get :: "raw_result \<Rightarrow> string \<Rightarrow> jval \<Rightarrow> jval" where
  "metadata_get result key dflt =
    (case metadata result of
       None \<Rightarrow> dflt
     | Some md \<Rightarrow> if md \<noteq> [] then dict_get md key dflt else dflt)"

definition result_namespace :: "raw_result \<Rightarrow> jval" where
  "result_namespace result = metadata_get result ''namespace'' (JStr ''unknown'')"

definition make_chunk_info :: "raw_result \<Rightarrow> chunk_info" where
  "make_chunk_info result =
    \<lparr>chunk_id = result_id result,
     chunk_score = score result,
     chunk_title = metadata_get result ''title'' (JStr ''Untitled''),
     chunk_type = metadata_get result ''type'' (JStr ''unknown''),
     chunk_category = metadata_get result ''category'' (JStr ''general''),
     chunk_content = metadata_get result ''content'' (JStr []),
     chunk_tags = metadata_get result ''tags'' (JList []),
     chunk_namespace = result_namespace result\<rparr>"

text \<open>
  The progress lines printed for a kept hit format its fields; the only one that can raise
  on a hit of the store is \<open>', '.join(chunk_info['tags'][:5])\<close>: it raises unless the tags
  are a string or a list whose first five elements are strings.
\<close>

fun is_JStr :: "jval \<Rightarrow> bool" where
  "is_JStr (JStr s) = True"
| "is_JStr v = False"

fun tags_joinable :: "jval \<Rightarrow> bool" where
  "tags_joinable (JStr s) = True"
| "tags_joinable (JList xs) = list_all is_JStr (take 5 xs)"
| "tags_joinable v = False"

text \<open>
  The \<open>for\<close> loop over the hits: \<open>relevant_chunks\<close> is the accumulator, a hit of another
  namespace is skipped (\<open>continue\<close>), an exception leaves the loop.
\<close>

fun collect_chunks ::
  "string \<Rightarrow> raw_result list \<Rightarrow> chunk_info list \<Rightarrow> py_exception + chunk_info list" where
  "collect_chunks namespace [] relevant_chunks = Inr relevant_chunks"
| "collect_chunks namespace (result # results) relevant_chunks =
    (if result_namespace result \<noteq> JStr namespace
     then collect_chunks namespace results relevant_chunks
     else if tags_joinable (chunk_tags (make_chunk_info result))
     then collect_chunks namespace results (relevant_chunks @ [make_chunk_info result])
     else Inl (PyException ''TypeError''))"

text \<open>
  \<open>query_namespace\<close>: the whole body is inside \<open>try\<close>; \<open>except Exception\<close> returns the
  empty list.
\<close>

definition query_namespace ::
  "vector_index \<Rightarrow> string \<Rightarrow> string \<Rightarrow> int \<Rightarrow> chunk_info list" where
  "query_namespace index query namespace k =
    (case index \<lparr>data = query, top_k = k, include_metadata = True\<rparr> of
       Inl e \<Rightarrow> []
     | Inr results \<Rightarrow>
         if results = [] then []
         else (case collect_chunks namespace results [] of
                 Inl e \<Rightarrow> []
               | Inr relevant_chunks \<Rightarrow> relevant_chunks))"

text \<open>
  \<open>generate_response\<close>.  The request sent to the completion service carries the system
  prompt and the user message; the function returns its text together with the list of
  requests it sent to the service.  \<open>py_str\<close> stands for Python's conversion \<open>str\<close> of a
  stored value inside an f-string.
\<close>

record chat_request =
  model :: string
  system_content :: string
  user_content :: string
  temperature :: real
  max_tokens :: int

type_synonym completion_service = "chat_request \<Rightarrow> py_exception + string list"

definition dt_system_prompt :: string where
  \<open>dt_system_prompt =
    ''You are Jashandeep's AI Digital Twin. Answer questions about Jashandeep's professional background, skills, experience, and qualifications based on the provided context. '' @
    [CHR 0x0A, CHR 0x0A] @
    ''Be conversational and personal, as if you are Jashandeep speaking about yourself. Use "I" and "my" when referring to experiences and achievements. Provide specific examples and details from the context.'' @
    [CHR 0x0A, CHR 0x0A] @
    ''For interview questions, provide STAR format responses when appropriate (Situation, Task, Action, Result).''\<close>

definition food_system_prompt :: string where
  "food_system_prompt =
    ''You are a knowledgeable food and nutrition assistant. Answer questions about foods, nutrition, cooking, and dietary information based on the provided context.'' @
    [CHR 0x0A, CHR 0x0A] @
    ''Provide helpful, accurate information about food items, their nutritional benefits, preparation methods, and cultural significance. Be informative yet conversational.''"

definition context_part :: "(jval \<Rightarrow> string) \<Rightarrow> chunk_info \<Rightarrow> string" where
  "context_part py_str chunk =
    ''Title: '' @ py_str (chunk_title chunk) @ [CHR 0x0A] @
    ''Type: '' @ py_str (chunk_type chunk) @ [CHR 0x0A] @
    ''Content: '' @ py_str (chunk_content chunk) @ [CHR 0x0A]"

definition generate_response ::
  "completion_service \<Rightarrow> (jval \<Rightarrow> string) \<Rightarrow> string \<Rightarrow> chunk_info list \<Rightarrow> string
     \<Rightarrow> string \<times> chat_request list" where
  "generate_response groq_client py_str query relevant_chunks namespace =
    (if relevant_chunks = []
     then (''I couldn't find relevant information in the '' @ [CHR 0x27] @ namespace @
             [CHR 0x27] @ '' namespace for your query.'', [])
     else
       let context_parts = map (context_part py_str) relevant_chunks;
           context = join ([CHR 0x0A] @ ''---'' @ [CHR 0x0A]) context_parts;
           system_prompt =
             (if namespace = ''dt'' then dt_system_prompt
              else if namespace = ''food'' then food_system_prompt
              else ''You are a helpful assistant. Answer questions based on the provided context.'');
           request =
             \<lparr>model = ''llama-3.3-70b-versatile'',
              system_content = system_prompt,
              user_content = ''Context:'' @ [CHR 0x0A] @ context @ [CHR 0x0A, CHR 0x0A] @
                ''Question: '' @ query @ [CHR 0x0A, CHR 0x0A] @ ''Answer:'',
              temperature = 7 / 10,
              max_tokens = 1000\<rparr>
       in (case groq_client request of
             Inl e \<Rightarrow> (''Error generating response: '' @ exception_str e, [request])
           | Inr [] \<Rightarrow> (''Error generating response: list index out of range'', [request])
           | Inr (choice # choices) \<Rightarrow> (choice, [request])))"

text \<open>\<open>digital_twin_query\<close> and \<open>food_query\<close>: the returned dictionary as a record.\<close>

record query_answer =
  answer_query :: string
  answer_namespace :: string
  answer_relevant_chunks :: "chunk_info list"
  answer_response :: string
  sources_count :: nat

definition digital_twin_query ::
  "vector_index \<Rightarrow> completion_service \<Rightarrow> (jval \<Rightarrow> string) \<Rightarrow> string \<Rightarrow> int \<Rightarrow> query_answer" where
  "digital_twin_query index groq_client py_str query k =
    (let relevant_chunks = query_namespace index query ''dt'' k;
         response = fst (generate_response groq_client py_str query relevant_chunks ''dt'')
     in \<lparr>answer_query = query, answer_namespace = ''dt'',
         answer_relevant_chunks = relevant_chunks, answer_response = response,
         sources_count = length relevant_chunks\<rparr>)"

definition food_query ::
  "vector_index \<Rightarrow> completion_service \<Rightarrow> (jval \<Rightarrow> string) \<Rightarrow> string \<Rightarrow> int \<Rightarrow> query_answer" where
  "food_query index groq_client py_str query k =
    (let relevant_chunks = query_namespace index query ''food'' k;
         response = fst (generate_response groq_client py_str query relevant_chunks ''food'')
     in \<lparr>answer_query = query, answer_namespace = ''food'',
         answer_relevant_chunks = relevant_chunks, answer_response = response,
         sources_count = length relevant_chunks\<rparr>)"

text \<open>
  A store for the examples: it holds a fixed ranking of hits and answers a request with the
  first \<open>top_k\<close> of them.
\<close>

definition ranked_index :: "raw_result list \<Rightarrow> vector_index" where
  "ranked_index hits request = Inr (take (nat (top_k request)) hits)"

definition food_hit :: raw_result where
  "food_hit = \<lparr>result_id = ''food-food_1'', score = 9 / 10,
     metadata = Some [(''title'', JStr ''Apple''), (''type'', JStr ''food_item''),
       (''tags'', JList [JStr ''food'']), (''namespace'', JStr ''food'')]\<rparr>"

definition dt_hit :: raw_result where
  "dt_hit = \<lparr>result_id = ''dt-personal_1'', score = 8 / 10,
     metadata = Some [(''title'', JStr ''Professional Overview''), (''type'', JStr ''personal_info''),
       (''tags'', JList [JStr ''professional'']), (''namespace'', JStr ''dt'')]\<rparr>"

definition dt_hit2 :: raw_result where
  "dt_hit2 = \<lparr>result_id = ''dt-career_3'', score = 7 / 10,
     metadata = Some [(''title'', JStr ''Career Objectives and Goals''),
       (''type'', JStr ''career_objectives''), (''namespace'', JStr ''dt'')]\<rparr>"

definition bare_hit :: raw_result where
  "bare_hit = \<lparr>result_id = ''dt-orphan'', score = 6 / 10, metadata = None\<rparr>"

definition empty_hit :: raw_result where
  "empty_hit = \<lparr>result_id = ''food-blank'', score = 4 / 10, metadata = Some []\<rparr>"

definition untagged_hit :: raw_result where
  "untagged_hit = \<lparr>result_id = ''legacy_7'', score = 5 / 10,
     metadata = Some [(''title'', JStr ''Old entry'')]\<rparr>"

section \<open>embed\_digitaltwin\_namespaced.py and embed\_foods\_namespaced.py\<close>

text \<open>
  A content chunk as the chunk builders produce it: the id is always built by an
  f-string, the title may be any value of the profile, the tags are a list of values.
  A vector is the triple (id, text, metadata) handed to the store's \<open>upsert\<close>.
\<close>

record content_chunk =
  cc_id :: string
  cc_title :: jval
  cc_content :: string
  cc_type :: string
  cc_category :: string
  cc_tags :: "jval list"

type_synonym vector = "string \<times> string \<times> pydict"

definition vector_id :: "vector \<Rightarrow> string" where
  "vector_id v = fst v"

definition vector_metadata :: "vector \<Rightarrow> pydict" where
  "vector_metadata v = snd (snd v)"

text \<open>The module constant \<open>NAMESPACE\<close> of each of the two scripts.\<close>

definition digitaltwin_NAMESPACE :: string where
  "digitaltwin_NAMESPACE = ''digitaltwin''"

definition foods_NAMESPACE :: string where
  "foods_NAMESPACE = ''foods''"

text \<open>The loop \<open>for chunk in content_chunks: vectors.append(...)\<close> of \<open>embed_digital_twin\<close>.\<close>

definition digital_twin_vector :: "(jval \<Rightarrow> string) \<Rightarrow> content_chunk \<Rightarrow> vector" where
  "digital_twin_vector py_str chunk =
    (let enhanced_content =
           ''Title: '' @ py_str (cc_title chunk) @ ''. Type: '' @ cc_type chunk @
           ''. Category: '' @ cc_category chunk @ ''. Content: '' @ cc_content chunk
     in (''dt-'' @ cc_id chunk,
         enhanced_content,
         [(''title'', cc_title chunk),
          (''type'', JStr (cc_type chunk)),
          (''category'', JStr (cc_category chunk)),
          (''content'', JStr (cc_content chunk)),
          (''tags'', JList (cc_tags chunk)),
          (''namespace'', JStr digitaltwin_NAMESPACE),
          (''source'', JStr ''digital_twin'')]))"

text \<open>The same loop of \<open>embed_foods_data\<close>.\<close>

definition foods_vector :: "(jval \<Rightarrow> string) \<Rightarrow> content_chunk \<Rightarrow> vector" where
  "foods_vector py_str chunk =
    (let enhanced_content = ''Food: '' @ py_str (cc_title chunk) @ ''. '' @ cc_content chunk
     in (''food-'' @ cc_id chunk,
         enhanced_content,
         [(''title'', cc_title chunk),
          (''type'', JStr (cc_type chunk)),
          (''category'', JStr (cc_category chunk)),
          (''content'', JStr (cc_content chunk)),
          (''tags'', JList (cc_tags chunk)),
          (''namespace'', JStr foods_NAMESPACE),
          (''source'', JStr ''foods_data'')]))"

text \<open>
  \<open>for i in range(0, len(vectors), batch_size): batch = vectors[i:i+batch_size]\<close>
\<close>

function batches :: "nat \<Rightarrow> 'a list \<Rightarrow> 'a list list" where
  "batches batch_size vectors =
    (if batch_size = 0 \<or> vectors = [] then []
     else take batch_size vectors # batches batch_size (drop batch_size vectors))"
  by pat_completeness auto
termination
  by (relation "measure (\<lambda>(batch_size, vectors). length vectors)") auto

declare batches.simps [simp del]

text \<open>
  The upload: every batch is handed to \<open>index.upsert\<close> inside its own \<open>try\<close>; a batch
  whose upsert raises is reported and skipped.  The result is the list of the batches the
  store accepted.
\<close>

definition upload_batches ::
  "(vector list \<Rightarrow> py_exception + unit) \<Rightarrow> vector list \<Rightarrow> vector list list" where
  "upload_batches upsert vectors =
    filter (\<lambda>batch. case upsert batch of Inr u \<Rightarrow> True | Inl e \<Rightarrow> False) (batches 50 vectors)"

definition embed_digital_twin ::
  "(vector list \<Rightarrow> py_exception + unit) \<Rightarrow> (jval \<Rightarrow> string) \<Rightarrow> content_chunk list
     \<Rightarrow> vector list list" where
  "embed_digital_twin upsert py_str content_chunks =
    upload_batches upsert (map (digital_twin_vector py_str) content_chunks)"

definition embed_foods_data ::
  "(vector list \<Rightarrow> py_exception + unit) \<Rightarrow> (jval \<Rightarrow> string) \<Rightarrow> content_chunk list
     \<Rightarrow> vector list list" where
  "embed_foods_data upsert py_str content_chunks =
    (if content_chunks = [] then []
     else upload_batches upsert (map (foods_vector py_str) content_chunks))"

text \<open>The hit the store returns for a stored vector, with the score the store assigns.\<close>

definition hit_of :: "vector \<Rightarrow> real \<Rightarrow> raw_result" where
  "hit_of v s = \<lparr>result_id = vector_id v, score = s, metadata = Some (vector_metadata v)\<rparr>"

definition example_chunk :: content_chunk where
  "example_chunk =
    \<lparr>cc_id = ''personal_1'', cc_title = JStr ''Professional Overview'',
     cc_content = ''Jashandeep is a developer based in Brisbane.'',
     cc_type = ''personal_info'', cc_category = ''overview'',
     cc_tags = [JStr ''professional'', JStr ''overview'', JStr ''introduction'']\<rparr>"

text \<open>A store that accepts every batch, and \<open>str\<close> on the string values.\<close>

definition accept_all :: "'a \<Rightarrow> py_exception + unit" where
  "accept_all batch = Inr ()"

fun example_str :: "jval \<Rightarrow> string" where
  "example_str (JStr s) = s"
| "example_str v = ''?''"

text \<open>A completion service that answers every request with one fixed choice.\<close>

definition fixed_service :: completion_service where
  "fixed_service request = Inr [''I am a developer based in Brisbane.'']"

section \<open>optimized\_upload.py\<close>

text \<open>
  A chunk of \<open>create_optimized_chunks\<close>: an id, a text, a category and a list of keywords.
  \<open>upload_optimized_data\<close> hands every chunk to the store on its own, as a dictionary with
  the entries id, data, metadata and namespace.
\<close>

record optimized_chunk =
  oc_id :: string
  oc_content :: string
  oc_category :: string
  oc_keywords :: "string list"

record vector_data =
  vd_id :: string
  vd_data :: string
  vd_metadata :: pydict
  vd_namespace :: string

definition optimized_vector_data :: "optimized_chunk \<Rightarrow> vector_data" where
  "optimized_vector_data chunk =
    \<lparr>vd_id = oc_id chunk,
     vd_data = oc_content chunk,
     vd_metadata =
       [(''category'', JStr (oc_category chunk)),
        (''keywords'', JStr (join '','' (oc_keywords chunk))),
        (''priority'',
         JStr (if oc_category chunk
                    \<in> set [''personal_overview'', ''education'', ''experience'', ''behavioral'']
               then ''high'' else ''medium'')),
        (''optimized_for_3_sources'', JBool True)],
     vd_namespace = ''dt''\<rparr>"

text \<open>
  The loop of \<open>upload_optimized_data\<close>: each upsert is inside its own \<open>try\<close>, a chunk whose
  upsert raises is reported and skipped.  \<open>upserted_optimized\<close> is the list of the
  dictionaries the store accepted; the function returns their number.
\<close>

definition upserted_optimized ::
  "(vector_data list \<Rightarrow> py_exception + unit) \<Rightarrow> optimized_chunk list \<Rightarrow> vector_data list" where
  "upserted_optimized upsert chunks =
    filter (\<lambda>vector_data. case upsert [vector_data] of Inr u \<Rightarrow> True | Inl e \<Rightarrow> False)
      (map optimized_vector_data chunks)"

definition upload_optimized_data ::
  "(vector_data list \<Rightarrow> py_exception + unit) \<Rightarrow> optimized_chunk list \<Rightarrow> nat" where
  "upload_optimized_data upsert chunks = length (upserted_optimized upsert chunks)"

text \<open>The hit the store returns for such a dictionary: its id and its metadata.\<close>

definition stored_hit :: "vector_data \<Rightarrow> real \<Rightarrow> raw_result" where
  "stored_hit v s = \<lparr>result_id = vd_id v, score = s, metadata = Some (vd_metadata v)\<rparr>"

definition example_optimized_chunk :: optimized_chunk where
  "example_optimized_chunk =
    \<lparr>oc_id = ''overview'',
     oc_content = ''Jashandeep Kaur - AI Builder Specialist & Full Stack Developer'',
     oc_category = ''personal_overview'',
     oc_keywords = [''jashandeep'', ''overview'', ''gpa'']\<rparr>"

section \<open>interview\_optimization\_framework.py\<close>

datatype QueryType =
    BEHAVIORAL
  | TECHNICAL
  | PROJECT_SPECIFIC
  | COMPANY_SPECIFIC
  | SALARY_LOCATION
  | AVAILABILITY
  | PERSONAL_STORY
  | GENERAL

subsection \<open>InterviewOptimizedDigitalTwin.\_extract\_relevant\_context\<close>

text \<open>
  The knowledge base is a \<open>Dict\<close> whose optional entry \<open>content_chunks\<close> is a list of
  chunk dictionaries (\<open>List[Dict]\<close> in the source's annotations).
\<close>

record knowledge_base =
  content_chunks :: "pydict list option"

text \<open>The dictionary literal \<open>relevant_types\<close>, in the order it is written.\<close>

definition relevant_types :: "(QueryType \<times> string list) list" where
  "relevant_types =
    [(BEHAVIORAL, [''experience'', ''personal_story'', ''strengths'']),
     (TECHNICAL, [''skills'', ''projects'', ''education'']),
     (PROJECT_SPECIFIC, [''projects'']),
     (SALARY_LOCATION, [''salary_location'', ''availability'']),
     (AVAILABILITY, [''availability'']),
     (COMPANY_SPECIFIC, [''career'', ''strengths''])]"

text \<open>\<open>relevant_types.get(query_type, ['experience', 'skills'])\<close>\<close>

definition target_types :: "QueryType \<Rightarrow> string list" where
  "target_types query_type =
    (case map_of relevant_types query_type of
       Some ts \<Rightarrow> ts
     | None \<Rightarrow> [''experience'', ''skills''])"

text \<open>\<open>chunk.get('type') in target_types\<close>: a missing type reads as \<open>None\<close>.\<close>

definition type_in :: "string list \<Rightarrow> pydict \<Rightarrow> bool" where
  "type_in ts chunk = (dict_get chunk ''type'' JNull \<in> set (map JStr ts))"

definition extract_relevant_context ::
  "knowledge_base \<Rightarrow> string \<Rightarrow> QueryType \<Rightarrow> pydict list" where
  "extract_relevant_context kb question query_type =
    (let chunks = (case content_chunks kb of Some cs \<Rightarrow> cs | None \<Rightarrow> []);
         relevant_chunks = filter (type_in (target_types query_type)) chunks
     in take 3 relevant_chunks)"

subsection \<open>QueryClassifier\<close>

text \<open>The six pattern lists of \<open>QueryClassifier.__init__\<close>, pattern by pattern.\<close>

definition behavioral_patterns :: "regex list" where
  "behavioral_patterns =
    [seqs [lit ''tell me about '', alts [lit ''a time'', lit ''when'', lit ''yourself'']],
     seqs [lit ''describe '', alts [lit ''a situation'', lit ''an experience'', lit ''how you'']],
     lit ''give me an example'',
     lit ''walk me through'',
     seqs [lit ''how do you '', alts [lit ''handle'', lit ''deal with'', lit ''approach'']],
     lit ''what would you do if'',
     seqs [lit ''challenging '', alts [lit ''project'', lit ''situation'', lit ''experience'']],
     seqs [lit ''difficult '', alts [lit ''customer'', lit ''situation'', lit ''decision'']],
     alts [lit ''conflict'', lit ''disagreement'', lit ''problem''],
     alts [lit ''leadership'', lit ''mentor'', lit ''team''],
     alts [lit ''failure'', lit ''mistake'', lit ''learn from''],
     alts [lit ''strength'', lit ''weakness'', lit ''improve''],
     alts [lit ''motivation'', lit ''passion'', lit ''drive'']]"

definition technical_patterns :: "regex list" where
  "technical_patterns =
    [seqs [lit ''explain '',
       alts [lit ''your experience with'', seqs [lit ''how'', any_star, lit ''work'', opt (lit ''s'')]]],
     alts [lit ''what is'', seqs [lit ''how does'', any_star, lit ''work'']],
     lit ''difference between'',
     alts [lit ''implement'', lit ''build'', lit ''develop'', lit ''code''],
     alts [lit ''algorithm'', lit ''data structure''],
     alts [lit ''database'', lit ''API'', lit ''framework''],
     alts [lit ''deployment'', lit ''cloud'', lit ''architecture''],
     alts [lit ''testing'', lit ''debugging'', lit ''optimization''],
     alts [lit ''RAG'', lit ''AI'', lit ''ML'', lit ''vector'', lit ''embedding''],
     alts [lit ''React'', lit ''Next.js'', lit ''Python'', lit ''JavaScript''],
     alts [seqs [lit ''full'', opt (Sym Dot), lit ''stack''], lit ''frontend'', lit ''backend'']]"

definition project_patterns :: "regex list" where
  "project_patterns =
    [lit ''Food RAG Explorer'',
     alts [lit ''digital twin'', lit ''personal digital twin''],
     seqs [lit ''full'', opt (Sym Dot), lit ''stack'', any_star, lit ''application''],
     alts [lit ''portfolio'', lit ''github'', lit ''project''],
     seqs [lit ''internship'', any_star, lit ''project''],
     seqs [lit ''ausbiz'', any_star, lit ''project'']]"

definition company_patterns :: "regex list" where
  "company_patterns =
    [alts [seqs [lit ''why'', any_star, lit ''company''], seqs [lit ''why'', any_star, lit ''us'']],
     lit ''what do you know about'',
     seqs [lit ''research'', any_star, lit ''company''],
     alts [seqs [lit ''fit'', any_star, lit ''culture''], seqs [lit ''culture'', any_star, lit ''fit'']],
     alts [seqs [lit ''contribute'', any_star, lit ''team''], seqs [lit ''add'', any_star, lit ''value'']]]"

definition salary_patterns :: "regex list" where
  "salary_patterns =
    [alts [lit ''salary'', lit ''compensation'', lit ''pay'', lit ''money''],
     seqs [lit ''expectations'', any_star, lit ''salary''],
     alts [lit ''budget'', lit ''rate'', lit ''cost''],
     alts [lit ''relocate'', lit ''location'', lit ''remote'', lit ''hybrid''],
     alts [lit ''visa'', lit ''authorization'', lit ''eligibility'']]"

definition availability_patterns :: "regex list" where
  "availability_patterns =
    [alts [lit ''start date'', seqs [lit ''when'', any_star, lit ''start''], lit ''availability''],
     alts [seqs [lit ''notice'', any_star, lit ''period''], seqs [lit ''current'', any_star, lit ''job'']],
     alts [lit ''graduate'', lit ''graduation'', seqs [lit ''finish'', any_star, lit ''degree'']],
     alts [seqs [lit ''part'', opt (Sym Dot), lit ''time''], seqs [lit ''full'', opt (Sym Dot), lit ''time''],
       seqs [lit ''hours'', any_star, lit ''week'']]]"

text \<open>\<open>any(re.search(pattern, s) for pattern in patterns)\<close>\<close>

definition any_search :: "regex list \<Rightarrow> string \<Rightarrow> bool" where
  "any_search patterns s = list_ex (\<lambda>pattern. search pattern s) patterns"

definition classify_query :: "string \<Rightarrow> QueryType" where
  "classify_query question =
    (let question_lower = lower question in
     if any_search behavioral_patterns question_lower then BEHAVIORAL
     else if any_search technical_patterns question_lower then TECHNICAL
     else if any_search project_patterns question_lower then PROJECT_SPECIFIC
     else if any_search company_patterns question_lower then COMPANY_SPECIFIC
     else if any_search salary_patterns question_lower then SALARY_LOCATION
     else if any_search availability_patterns question_lower then AVAILABILITY
     else GENERAL)"

text \<open>
  The priority order as the specification words it: the groups in their fixed order, the
  first group with a matching pattern wins, GENERAL when none matches.
\<close>

definition priority_groups :: "(QueryType \<times> regex list) list" where
  "priority_groups =
    [(BEHAVIORAL, behavioral_patterns),
     (TECHNICAL, technical_patterns),
     (PROJECT_SPECIFIC, project_patterns),
     (COMPANY_SPECIFIC, company_patterns),
     (SALARY_LOCATION, salary_patterns),
     (AVAILABILITY, availability_patterns)]"

fun first_matching_group :: "(QueryType \<times> regex list) list \<Rightarrow> string \<Rightarrow> QueryType" where
  "first_matching_group [] s = GENERAL"
| "first_matching_group ((intent, patterns) # groups) s =
    (if any_search patterns s then intent else first_matching_group groups s)"

subsection \<open>The fixed answers of ResponseTemplateGenerator and InterviewOptimizedDigitalTwin\<close>

text \<open>
  Each of these methods returns one string literal.  The literal is written here as the
  concatenation of its pieces, cut after a space or around a line break.
\<close>

definition format_challenging_project_response :: string where
  \<open>format_challenging_project_response =
    concat
      [''My Food RAG Explorer project presented a significant technical challenge '',
       ''that pushed my abilities.'',
       [CHR 0x0A, CHR 0x0A],
       ''**Situation:** I built an AI application locally using Ollama and ChromaDB, '',
       ''but needed to migrate it to production for real-world use - something I'd '',
       ''never done before.'',
       [CHR 0x0A, CHR 0x0A],
       ''**Task:** Transition from local development to cloud deployment while maintaining '',
       ''functionality and learning production-grade AI architecture along the way.'',
       [CHR 0x0A, CHR 0x0A],
       ''**Action:** I systematically researched and implemented cloud alternatives: '',
       ''migrated from Ollama to Grok API, ChromaDB to Upstash vector database, designed '',
       ''the interface with V0.dev, and deployed on Vercel. I broke down each component '',
       ''and tackled them individually.'',
       [CHR 0x0A, CHR 0x0A],
       ''**Result:** Successfully deployed a live AI application and gained deep '',
       ''understanding of RAG systems, vector embeddings, and production deployment '',
       ''pipelines. This experience taught me that complex challenges become manageable '',
       ''through systematic breakdown and persistent problem-solving.'']\<close>

definition format_learning_response :: string where
  \<open>format_learning_response =
    concat
      [''Great question! This actually happened during my Full Stack Developer internship '',
       ''with ausbiz Consulting, which was a 10-week intensive program.'',
       [CHR 0x0A, CHR 0x0A],
       ''**Situation:** I had some basic coding knowledge from university, but I '',
       ''hadn't worked with modern production frameworks like React 19, Next.js 15, '',
       ''or cloud deployment before. The program was fast-paced, and we were expected '',
       ''to build and deploy real applications within those 10 weeks.'',
       [CHR 0x0A, CHR 0x0A],
       ''**Task:** I needed to quickly master these technologies to successfully '',
       ''complete the program and build production-ready applications.'',
       [CHR 0x0A, CHR 0x0A],
       ''**Action:** I adopted a very hands-on learning approach. I'd watch the training '',
       ''materials, but then immediately apply what I learned by building small features. '',
       ''I also made heavy use of GitHub Copilot and ChatGPT - not just to write '',
       ''code, but to understand *why* the code worked that way. When I got stuck, '',
       ''I'd ask specific questions rather than broad ones. For example, when learning '',
       ''about server-side rendering in Next.js, I didn't just read about it - I '',
       ''built a small feature that required SSR, broke it, and fixed it. That's '',
       ''how the concepts really stuck.'',
       [CHR 0x0A, CHR 0x0A],
       ''**Result:** By the end of those 10 weeks, I had built multiple full-stack '',
       ''applications with React 19 and Next.js 15, integrated PostgreSQL databases '',
       ''with Prisma ORM, worked with AWS cloud services, and deployed production-ready '',
       ''applications to Vercel. I also earned my Full Stack Developer certification. '',
       ''This experience taught me that I thrive in intensive learning environments, '',
       ''and that I'm capable of picking up new technologies quickly when I combine '',
       ''structured learning with hands-on practice.'']\<close>

definition format_time_management_response :: string where
  \<open>format_time_management_response =
    concat
      [''This is something I actually deal with every day! Right now, I'm managing '',
       ''my AI Builder internship, working as a Student Tutor and Mentor at Victoria '',
       ''University, working part-time as a Front Office Receptionist at Royal Albert '',
       ''Hotel, and completing my final year of studies.'',
       [CHR 0x0A, CHR 0x0A],
       ''**Situation:** I needed to balance four significant commitments while maintaining '',
       ''quality in all areas and meeting everyone's expectations.'',
       [CHR 0x0A, CHR 0x0A],
       ''**Task:** The challenge was finding a way to manage these responsibilities '',
       ''without burning out or compromising on quality in any area.'',
       [CHR 0x0A, CHR 0x0A],
       ''**Action:** The key is that these roles actually fit together quite naturally. '',
       ''My mentoring role is most demanding during new student intakes - orientation '',
       ''periods at the start of semester. Those periods usually coincide with my '',
       ''university vacation breaks, when I'm authorized to work full-time on my '',
       ''student visa. My receptionist job is part-time evening shifts, which works '',
       ''perfectly because it doesn't conflict with my day-time university schedule '',
       ''or tutoring sessions. My internship is remote, so I don't lose time commuting. '',
       ''I use strategic scheduling, clear communication with all supervisors, and '',
       ''prioritization based on deadlines and impact.'',
       [CHR 0x0A, CHR 0x0A],
       ''**Result:** I've successfully maintained all commitments while achieving '',
       ''a 6.17/7.0 GPA, supporting 100+ students, and completing intensive internship '',
       ''programs. What I've learned is that it's not just about being busy - it's '',
       ''about being intentional with your time. Each role actually complements the '',
       ''others - tutoring improves my technical communication, hospitality strengthens '',
       ''customer service skills, and internships provide real-world experience to '',
       ''share with students.'']\<close>

definition format_mentoring_response :: string where
  \<open>format_mentoring_response =
    concat
      [''I have a story that really shows how I approach this. I had a student who '',
       ''was struggling with our university's LMS system. She kept saying she was '',
       [CHR 0x27],
       ''bad with technology' and getting frustrated every time she tried to navigate '',
       ''it.'',
       [CHR 0x0A, CHR 0x0A],
       ''**Situation:** A student was struggling with the university's Learning Management '',
       ''System and was getting increasingly frustrated, convinced she was 'bad with '',
       ''technology.'',
       [CHR 0x27, CHR 0x0A, CHR 0x0A],
       ''**Task:** I needed to help her understand the system in a way that would '',
       ''build her confidence and create lasting understanding, not just solve the '',
       ''immediate problem.'',
       [CHR 0x0A, CHR 0x0A],
       ''**Action:** Instead of just walking her through the steps again, I sat down '',
       ''and asked her about how she organizes things at home. She told me she's '',
       ''really good at organizing her house - everything has a place, and her kids '',
       ''always come to her when they can't find something. So I reframed the LMS '',
       ''as being like organizing a house. I said 'Think of each subject as a different '',
       ''room. Just like you have a kitchen for cooking and a bedroom for sleeping, '',
       ''each subject has its own space with everything you need for that class.' '',
       ''I showed her how the discussion forums were like the living room where everyone '',
       ''gathers to talk, and the assignment submissions were like a filing cabinet.'',
       [CHR 0x0A, CHR 0x0A],
       ''**Result:** Suddenly, it all clicked for her. She wasn't bad with technology '',
       ''- she just needed a framework that made sense to her world. Now she's one '',
       ''of the most active students on the platform and even helps other students '',
       ''navigate it. That experience taught me that when someone doesn't understand '',
       ''a concept, it's usually not because they're incapable. It's because I haven't '',
       ''found the right way to connect it to something they already know.'']\<close>

definition format_introduction_response :: string where
  \<open>format_introduction_response =
    concat
      [''I'm Jashandeep, a final-year IT student at Victoria University Brisbane '',
       ''with hands-on experience in full-stack development and AI systems.'',
       [CHR 0x0A, CHR 0x0A],
       ''I've completed two internships with ausbiz Consulting - first as a Full '',
       ''Stack Developer building React and Next.js applications, and currently as '',
       ''an AI Builder developing digital twins and RAG systems. My standout project '',
       ''is the Food RAG Explorer, which I successfully migrated from local development '',
       ''to production using Grok API and Upstash.'',
       [CHR 0x0A, CHR 0x0A],
       ''I also tutor and mentor over 100 students at university, which has sharpened '',
       ''my ability to communicate complex technical concepts clearly. I'm passionate '',
       ''about creating solutions that make a real impact, and I'm looking forward '',
       ''to contributing that same energy to your team.'']\<close>

definition format_rag_explanation :: string where
  \<open>format_rag_explanation =
    concat
      [''RAG - Retrieval-Augmented Generation - combines AI models with custom data '',
       ''retrieval for more accurate, context-aware responses.'',
       [CHR 0x0A, CHR 0x0A],
       ''I implemented this in my Food RAG Explorer project with 105 food items. '',
       ''The system converts both the data and user queries into vector embeddings, '',
       ''performs similarity searches to find relevant information, then feeds that '',
       ''context to the AI model. This grounds responses in actual data rather than '',
       ''just general AI knowledge.'',
       [CHR 0x0A, CHR 0x0A],
       ''I successfully migrated this from a local ChromaDB setup to production using '',
       ''Upstash vector database and Grok API, which taught me valuable lessons about '',
       ''scaling AI applications for real-world use.'']\<close>

definition format_fullstack_explanation :: string where
  \<open>format_fullstack_explanation =
    concat
      [''I've gained solid full-stack experience through my internship at ausbiz '',
       ''Consulting, working with modern JavaScript technologies.'',
       [CHR 0x0A, CHR 0x0A],
       ''Frontend: React 19 and Next.js 15 with Tailwind CSS. I particularly value '',
       ''Next.js for its flexibility between server-side and client-side rendering, '',
       ''and TypeScript for maintaining code quality across the entire application.'',
       [CHR 0x0A, CHR 0x0A],
       ''Backend: I build APIs using Next.js App Router and Node.js, with PostgreSQL '',
       ''and Prisma ORM for database management. I've implemented authentication, '',
       ''RESTful APIs, and worked with vector databases like Upstash for AI features.'',
       [CHR 0x0A, CHR 0x0A],
       ''Deployment: All my applications are deployed on Vercel with proper environment '',
       ''variable management and production optimization. The tight integration between '',
       ''TypeScript, Prisma, and Next.js creates a really efficient development workflow.'']\<close>

definition format_deployment_explanation :: string where
  \<open>format_deployment_explanation =
    concat
      [''I have strong experience deploying applications to Vercel, with a focus '',
       ''on smooth CI/CD workflows and security best practices.'',
       [CHR 0x0A, CHR 0x0A],
       ''My approach involves connecting GitHub repositories to Vercel for automatic '',
       ''deployments on each push, with proper environment variable configuration '',
       ''for sensitive data like API keys and database connections. For my Food RAG '',
       ''Explorer project, this included integrating Upstash vector database and '',
       ''Grok API.'',
       [CHR 0x0A, CHR 0x0A],
       ''Key practices I follow: secure environment variable management, thorough '',
       ''testing before deployment, monitoring deployment logs, and implementing '',
       ''preview deployments for testing changes. Vercel's Git integration streamlines '',
       ''the entire process, allowing me to focus on development rather than infrastructure '',
       ''management.'']\<close>

definition format_ai_ml_explanation :: string where
  \<open>format_ai_ml_explanation =
    concat
      [''I've had some really exciting hands-on experience with AI/ML integration, '',
       ''particularly through my internships with ausbiz Consulting.'',
       [CHR 0x0A, CHR 0x0A],
       ''During my AI Builder internship, I'm working on enterprise-grade digital '',
       ''twin implementations. This involves creating AI systems that can represent '',
       ''real-world entities and processes using advanced AI architectures, vector '',
       ''embeddings, and RAG systems.'',
       [CHR 0x0A, CHR 0x0A],
       ''For my Food RAG Explorer project, I integrated multiple AI components:'',
       [CHR 0x0A],
       ''- Started with Ollama running locally for development, which gave me understanding '',
       ''of how LLMs work'',
       [CHR 0x0A],
       ''- Migrated to Grok API for production deployment'',
       [CHR 0x0A],
       ''- Implemented vector embeddings to convert food information into numerical '',
       ''representations'',
       [CHR 0x0A],
       ''- Set up a vector database (moved from ChromaDB to Upstash) to store and '',
       ''retrieve embeddings efficiently'',
       [CHR 0x0A],
       ''- Created the RAG pipeline that retrieves relevant information and augments '',
       ''the AI's responses'',
       [CHR 0x0A, CHR 0x0A],
       ''What I've learned is that AI integration is about more than just calling '',
       ''an API. It's about:'',
       [CHR 0x0A],
       ''1. Understanding the problem: What's the best AI approach for this specific '',
       ''use case?'',
       [CHR 0x0A],
       ''2. Data preparation: Making sure your data is in the right format'',
       [CHR 0x0A],
       ''3. Prompt engineering: Crafting effective prompts to get quality responses'',
       [CHR 0x0A],
       ''4. Error handling: AI responses can be unpredictable, so you need good fallbacks'',
       [CHR 0x0A],
       ''5. User experience: How do you present AI outputs in a way that's helpful '',
       ''and trustworthy?'',
       [CHR 0x0A, CHR 0x0A],
       ''I'm really excited about this field because it's moving so fast. I stay '',
       ''current by using tools like GitHub Copilot and Claude Desktop in my development '',
       ''workflow, which has also taught me a lot about working effectively with '',
       ''AI assistants.'']\<close>

definition format_salary_location_response :: string where
  \<open>format_salary_location_response =
    concat
      [''I'm flexible on compensation and really interested in finding the right '',
       ''fit. Based on my research of Brisbane market rates and considering my technical '',
       ''skills in AI/ML and full-stack development, I'm thinking in the range of '',
       ''$65,000 to $75,000 for an entry-level developer role, with potential for '',
       ''a premium for specialized AI/ML positions up to $85,000.'',
       [CHR 0x0A, CHR 0x0A],
       ''What's most important to me is the opportunity to learn, contribute meaningfully, '',
       ''and grow with a great team. I'm also very interested in the role scope, '',
       ''mentorship opportunities, and growth potential - those factors are just '',
       ''as important as the base salary.'',
       [CHR 0x0A, CHR 0x0A],
       ''In terms of location, I'm based in Brisbane and would prefer to stay in '',
       ''Queensland - Brisbane, Gold Coast, or other Queensland locations work well '',
       ''for me. I'm also very open to remote or hybrid arrangements, and I have '',
       ''20+ weeks of remote work experience from my internships with ausbiz Consulting, '',
       ''so I'm comfortable with remote collaboration.'',
       [CHR 0x0A, CHR 0x0A],
       ''I'm graduating in June 2026, so I'm looking for positions that could potentially '',
       ''start part-time during my final semester and transition to full-time after '',
       ''graduation. Is there flexibility in the role structure to accommodate that '',
       ''timeline?'']\<close>

definition format_availability_response :: string where
  \<open>format_availability_response =
    concat
      [''I'm graduating in June 2026, so my availability has two phases:'',
       [CHR 0x0A, CHR 0x0A],
       ''**Current availability:** I'm authorized to work part-time during the semester '',
       ''- up to 20 hours per week - and full-time during university breaks. Right '',
       ''now I'm managing my AI Builder internship, mentoring responsibilities, and '',
       ''studies quite well, so I could potentially take on the right opportunity '',
       ''with proper scheduling.'',
       [CHR 0x0A, CHR 0x0A],
       ''**Post-graduation:** From July 2026 onwards, I'll be available for full-time '',
       ''work and eligible for a post-study work visa, which gives me full work authorization '',
       ''in Australia.'',
       [CHR 0x0A, CHR 0x0A],
       ''The ideal scenario would be a role that could start part-time - maybe 15-20 '',
       ''hours per week - during my final semester, then transition to full-time '',
       ''once I graduate. This would actually be perfect timing for a graduate program '',
       ''intake.'',
       [CHR 0x0A, CHR 0x0A],
       ''I have a good track record of balancing multiple commitments - I'm currently '',
       ''managing internship work, mentoring 100+ students, part-time hospitality '',
       ''work, and maintaining a 6.17 GPA. So I'm confident I can contribute meaningfully '',
       ''even on a part-time basis initially.'',
       [CHR 0x0A, CHR 0x0A],
       ''Is there flexibility in the role structure to accommodate this kind of timeline? '',
       ''I'd love to discuss how we could make it work.'']\<close>

definition format_company_interest_response :: string where
  \<open>format_company_interest_response =
    concat
      [''I'd need to research your specific company to give you a detailed answer, '',
       ''but I can share what generally excites me about potential opportunities.'',
       [CHR 0x0A, CHR 0x0A],
       ''I'm particularly drawn to companies that are doing innovative work with '',
       ''AI/ML technologies, especially those applying it to solve real business '',
       ''problems. Having built production AI systems like my Food RAG Explorer and '',
       ''digital twin implementations, I'm excited by organizations that are pushing '',
       ''the boundaries of what's possible with AI.'',
       [CHR 0x0A, CHR 0x0A],
       ''I also value companies with strong engineering cultures - places where I '',
       ''can learn from experienced developers, contribute ideas even as a junior '',
       ''team member, and grow technically. My mentoring experience has shown me '',
       ''how much I learn when I'm around people who challenge me to think differently.'',
       [CHR 0x0A, CHR 0x0A],
       ''From a practical standpoint, I'm looking for remote-friendly or Brisbane-based '',
       ''opportunities, and I'm particularly interested in companies that offer structured '',
       ''onboarding for new graduates - since I'm graduating in June 2026.'',
       [CHR 0x0A, CHR 0x0A],
       ''Could you tell me more about what makes your company special? What are the '',
       ''engineering team's biggest challenges right now? And what does the learning '',
       ''and development culture look like? I'd love to understand what makes this '',
       ''opportunity unique and how I could contribute to your team's success.'']\<close>

subsection \<open>ResponseTemplateGenerator\<close>

text \<open>
  \<open>py_str\<close> stands for Python's conversion \<open>str\<close> of a stored value inside an f-string.
\<close>

text \<open>\<open>_format_generic_behavioral_response\<close>\<close>

definition format_generic_behavioral_response :: "(jval \<Rightarrow> string) \<Rightarrow> pydict list \<Rightarrow> string" where
  "format_generic_behavioral_response py_str experiences =
    (case experiences of
       experience # rest \<Rightarrow>
         ''Let me share an example from my experience at '' @
         py_str (dict_get experience ''company'' (JStr ''my recent work'')) @ ''...'' @
         [CHR 0x0A, CHR 0x0A] @ py_str (dict_get experience ''content'' (JStr []))
     | [] \<Rightarrow> ''I'd be happy to share an example from my experience...'')"

text \<open>\<open>generate_behavioral_response\<close>: the chain of keyword tests on the lower-cased question.\<close>

definition generate_behavioral_response ::
  "(jval \<Rightarrow> string) \<Rightarrow> string \<Rightarrow> pydict list \<Rightarrow> string" where
  "generate_behavioral_response py_str question context =
    (let experiences = filter (type_in [''experience'', ''personal_story'']) context;
         question_lower = lower question
     in if any_in [''challenging'', ''difficult'', ''problem''] question_lower
        then format_challenging_project_response
        else if any_in [''learn'', ''technology'', ''quickly''] question_lower
        then format_learning_response
        else if any_in [''balance'', ''multiple'', ''responsibilities''] question_lower
        then format_time_management_response
        else if any_in [''mentor'', ''help'', ''explain''] question_lower
        then format_mentoring_response
        else if any_in [''tell me about yourself'', ''background''] question_lower
        then format_introduction_response
        else format_generic_behavioral_response py_str experiences)"

text \<open>\<open>_format_generic_technical_response\<close>\<close>

definition format_generic_technical_response :: "(jval \<Rightarrow> string) \<Rightarrow> pydict list \<Rightarrow> string" where
  "format_generic_technical_response py_str context =
    (case filter (\<lambda>item. dict_get item ''type'' JNull = JStr ''skills'') context of
       skill # rest \<Rightarrow>
         ''Based on my experience, '' @ py_str (dict_get skill ''content'' (JStr []))
     | [] \<Rightarrow> ''I'd be happy to discuss my technical experience...'')"

text \<open>\<open>generate_technical_response\<close>\<close>

definition generate_technical_response ::
  "(jval \<Rightarrow> string) \<Rightarrow> string \<Rightarrow> pydict list \<Rightarrow> string" where
  "generate_technical_response py_str question context =
    (let question_lower = lower question
     in if str_in ''rag'' question_lower
        then format_rag_explanation
        else if any_in [''full stack'', ''full-stack''] question_lower
        then format_fullstack_explanation
        else if any_in [''deploy'', ''cloud'', ''vercel''] question_lower
        then format_deployment_explanation
        else if any_in [''ai'', ''ml'', ''artificial intelligence''] question_lower
        then format_ai_ml_explanation
        else format_generic_technical_response py_str context)"

subsection \<open>ResponseValidator\<close>

record ValidationResult =
  is_valid :: bool
  issues :: "string list"
  suggestions :: "string list"
  authenticity_score :: real

text \<open>\<open>_has_first_person_perspective\<close>: the indicators are looked up as written, case included.\<close>

definition has_first_person_perspective :: "string \<Rightarrow> bool" where
  "has_first_person_perspective response =
    any_in [''I '', ''my '', ''me '', ''myself'', ''I'm '', ''I've ''] response"

text \<open>
  \<open>_has_specific_details\<close>: the five patterns \<open>\d+\<close>,
  \<open>React|Next\.js|Python|JavaScript|Vercel|AWS\<close>,
  \<open>ausbiz|Victoria University|Food RAG Explorer\<close>, \<open>\b\d{4}\b\<close> and
  \<open>weeks?|months?|days?\<close>, in this order.
\<close>

definition has_specific_details :: "string \<Rightarrow> bool" where
  "has_specific_details response \<longleftrightarrow>
    search (plus (Sym Digit)) response
    \<or> search (alts [lit ''React'', lit ''Next.js'', lit ''Python'', lit ''JavaScript'',
                     lit ''Vercel'', lit ''AWS'']) response
    \<or> search (alts [lit ''ausbiz'', lit ''Victoria University'', lit ''Food RAG Explorer'']) response
    \<or> search_year response
    \<or> search (alts [seqs [lit ''week'', opt (lit ''s'')], seqs [lit ''month'', opt (lit ''s'')],
                     seqs [lit ''day'', opt (lit ''s'')]]) response"

text \<open>\<open>_check_response_length\<close>: \<open>None\<close> when the length is acceptable.\<close>

definition check_response_length :: "string \<Rightarrow> QueryType \<Rightarrow> string option" where
  "check_response_length response query_type =
    (let wc = word_count response
     in if query_type = BEHAVIORAL
        then (if wc < 80 then Some ''Behavioral response too short (should be 120-200 words)''
              else if wc > 250 then Some ''Behavioral response too long (should be 120-200 words)''
              else None)
        else if query_type = TECHNICAL
        then (if wc < 60 then Some ''Technical response too short (should be 80-150 words)''
              else if wc > 200 then Some ''Technical response too long (should be 80-150 words)''
              else None)
        else None)"

text \<open>\<open>_has_star_structure\<close>\<close>

definition has_star_structure :: "string \<Rightarrow> bool" where
  "has_star_structure response =
    (let star_indicators = [''situation'', ''task'', ''action'', ''result''];
         response_lower = lower response;
         explicit_markers = count_in star_indicators response_lower;
         has_context = any_in [''when i'', ''during my'', ''at the time''] response_lower;
         has_challenge = any_in [''needed to'', ''had to'', ''challenge was''] response_lower;
         has_action = any_in [''i did'', ''i implemented'', ''i decided''] response_lower;
         has_outcome = any_in [''result'', ''outcome'', ''success'', ''learned''] response_lower
     in explicit_markers \<ge> 2 \<or> (has_context \<and> has_challenge \<and> has_action \<and> has_outcome))"

text \<open>
  \<open>_calculate_authenticity_score\<close>: a Python float, modelled as a real number (exact
  arithmetic, no rounding).
\<close>

definition calculate_authenticity_score :: "string \<Rightarrow> real" where
  "calculate_authenticity_score response =
    (let score0 = 0;
         personal_indicators =
           [''my experience'', ''when I'', ''I worked'', ''I built'', ''I learned''];
         score1 = score0 + 0.2 * real (count_in personal_indicators response);
         score2 = (if has_specific_details response then score1 + 0.3 else score1);
         honest_indicators = [''challenging'', ''difficult'', ''learned'', ''mistake'', ''improved''];
         score3 = score2 + 0.1 * real (count_in honest_indicators response);
         score4 =
           (if any_in [''I'd'', ''that's'', ''it's'', ''really''] response then score3 + 0.2
            else score3)
     in min 1.0 score4)"

text \<open>
  \<open>_check_for_hallucinations\<close>; the pattern of the second test is
  \<open>(\d+)\s*years? of experience\<close>.
\<close>

definition check_for_hallucinations :: "string \<Rightarrow> string list" where
  "check_for_hallucinations response =
    (let issues0 = [];
         known_companies = [''ausbiz Consulting'', ''Victoria University'', ''Royal Albert Hotel''];
         issues1 =
           (if str_in ''Google'' response \<or> str_in ''Microsoft'' response \<or> str_in ''Amazon'' response
            then (if \<not> any_in known_companies response
                  then issues0 @ [''Potential hallucination: Unknown company mentioned'']
                  else issues0)
            else issues0);
         issues2 =
           (if search (seqs [plus (Sym Digit), Star (Sym Whitespace), lit ''year'', opt (lit ''s''),
                             lit '' of experience'']) response
            then issues1 @ [''Check experience timeframe accuracy'']
            else issues1)
     in issues2)"

text \<open>
  \<open>validate_response\<close>: the lists \<open>issues\<close> and \<open>suggestions\<close> grow by \<open>append\<close> and
  \<open>extend\<close>, test after test; \<open>if length_issue\<close> holds for a string that is not empty.
\<close>

definition validate_response :: "string \<Rightarrow> QueryType \<Rightarrow> ValidationResult" where
  "validate_response response query_type =
    (let issues0 = [];
         suggestions0 = [];
         (issues1, suggestions1) =
           (if \<not> has_first_person_perspective response
            then (issues0 @ [''Response lacks first-person perspective''],
                  suggestions0 @ [''Use 'I', 'my', 'me' to personalize the response''])
            else (issues0, suggestions0));
         (issues2, suggestions2) =
           (if \<not> has_specific_details response
            then (issues1 @ [''Response lacks specific details''],
                  suggestions1 @ [''Add specific examples, numbers, or concrete details''])
            else (issues1, suggestions1));
         length_issue = check_response_length response query_type;
         (issues3, suggestions3) =
           (case length_issue of
              Some issue \<Rightarrow>
                if issue \<noteq> []
                then (issues2 @ [issue],
                      suggestions2 @ [''Adjust response length to match question complexity''])
                else (issues2, suggestions2)
            | None \<Rightarrow> (issues2, suggestions2));
         (issues4, suggestions4) =
           (if query_type = BEHAVIORAL
            then (if \<not> has_star_structure response
                  then (issues3 @ [''Behavioral response missing STAR structure''],
                        suggestions3 @ [''Include Situation, Task, Action, Result elements''])
                  else (issues3, suggestions3))
            else (issues3, suggestions3));
         score = calculate_authenticity_score response;
         hallucination_issues = check_for_hallucinations response;
         issues5 = issues4 @ hallucination_issues
     in \<lparr>is_valid = (length issues5 = 0),
         issues = issues5,
         suggestions = suggestions4,
         authenticity_score = score\<rparr>)"

section \<open>company\_response\_customizer.py\<close>

record CompanyProfile =
  name :: string
  industry :: string
  tech_stack :: "string list"
  company_values :: "string list"
  company_size :: string
  culture_keywords :: "string list"
  recent_news :: "string list"

text \<open>The dictionary \<open>brisbane_companies\<close>, in insertion order.\<close>

definition brisbane_companies :: "(string \<times> CompanyProfile) list" where
  "brisbane_companies =
    [(''suncorp'',
      \<lparr>name = ''Suncorp Group'',
       industry = ''Financial Services/Insurance'',
       tech_stack = [''Java'', ''Python'', ''AWS'', ''Microservices'', ''React'', ''API Gateway''],
       company_values = [''Customer First'', ''Own It'', ''Be Bold'', ''Stay Curious''],
       company_size = ''Large Enterprise (14,000+ employees)'',
       culture_keywords = [''innovation'', ''digital transformation'', ''customer-centric'', ''agile''],
       recent_news = [''Digital banking transformation'', ''Cloud-first strategy'',
         ''AI/ML initiatives'']\<rparr>),
     (''flight_centre'',
      \<lparr>name = ''Flight Centre Travel Group'',
       industry = ''Travel Technology'',
       tech_stack = [''Java'', ''JavaScript'', ''React'', ''Node.js'', ''AWS'', ''Microservices''],
       company_values = [''People First'', ''Customer Focused'', ''Bright Future'', ''Ownership''],
       company_size = ''Large Enterprise (18,000+ employees)'',
       culture_keywords = [''innovation'', ''travel tech'', ''customer experience'', ''global''],
       recent_news = [''Travel recovery technology'', ''Digital experience platforms'',
         ''Mobile innovation'']\<rparr>),
     (''xero'',
      \<lparr>name = ''Xero'',
       industry = ''FinTech/SaaS'',
       tech_stack = [''C#'', ''React'', ''AWS'', ''Microservices'', ''TypeScript'', ''GraphQL''],
       company_values = [''Human'', ''Purposeful'', ''Adventurous''],
       company_size = ''Large (4,000+ employees)'',
       culture_keywords = [''small business'', ''beautiful software'', ''innovation'', ''human''],
       recent_news = [''AI automation features'', ''Small business platform expansion'',
         ''Developer API growth'']\<rparr>),
     (''technologyone'',
      \<lparr>name = ''TechnologyOne'',
       industry = ''Enterprise Software/SaaS'',
       tech_stack = [''Java'', ''React'', ''Angular'', ''AWS'', ''Microservices'', ''REST APIs''],
       company_values = [''Innovation'', ''Quality'', ''Service'', ''People''],
       company_size = ''Large (1,300+ employees)'',
       culture_keywords = [''enterprise software'', ''innovation'', ''continuous improvement'',
         ''customer success''],
       recent_news = [''SaaS transformation'', ''AI-powered solutions'',
         ''Government sector growth'']\<rparr>)]"

record industry_pattern =
  pattern_keywords :: "string list"
  tech_emphasis :: "string list"
  value_props :: "string list"

text \<open>The dictionary \<open>industry_patterns\<close>, in insertion order.\<close>

definition industry_patterns :: "(string \<times> industry_pattern) list" where
  "industry_patterns =
    [(''fintech'',
      \<lparr>pattern_keywords = [''financial'', ''banking'', ''payments'', ''investment'', ''trading''],
       tech_emphasis = [''security'', ''scalability'', ''compliance'', ''data analytics''],
       value_props = [''quantitative thinking'', ''attention to detail'',
         ''regulatory understanding'']\<rparr>),
     (''consulting'',
      \<lparr>pattern_keywords = [''consulting'', ''advisory'', ''transformation'', ''strategy''],
       tech_emphasis = [''client solutions'', ''adaptability'', ''communication''],
       value_props = [''problem-solving'', ''client focus'', ''business impact'']\<rparr>),
     (''startup'',
      \<lparr>pattern_keywords = [''startup'', ''scale-up'', ''growth'', ''agile''],
       tech_emphasis = [''rapid development'', ''MVP'', ''innovation'', ''flexibility''],
       value_props = [''adaptability'', ''ownership'', ''growth mindset'']\<rparr>)]"

text \<open>
  \<open>_identify_company\<close>: the first profile, in insertion order, whose key or lower-cased
  name occurs in the lower-cased context.
\<close>

fun identify_company_in :: "(string \<times> CompanyProfile) list \<Rightarrow> string \<Rightarrow> CompanyProfile option" where
  "identify_company_in [] context_lower = None"
| "identify_company_in ((key, profile) # items) context_lower =
    (if str_in key context_lower \<or> str_in (lower (name profile)) context_lower
     then Some profile
     else identify_company_in items context_lower)"

definition identify_company :: "string \<Rightarrow> CompanyProfile option" where
  "identify_company company_context = identify_company_in brisbane_companies (lower company_context)"

text \<open>\<open>_customize_for_known_company\<close>: the list \<open>customizations\<close> grows by \<open>append\<close>.\<close>

definition my_tech :: "string list" where
  "my_tech = [''Python'', ''JavaScript'', ''TypeScript'', ''React'', ''Next.js'', ''AWS'', ''Node.js'']"

definition customize_for_known_company :: "string \<Rightarrow> CompanyProfile \<Rightarrow> string \<Rightarrow> string" where
  "customize_for_known_company base_response company query_type =
    (let matching_tech = filter (\<lambda>tech. tech \<in> set my_tech) (tech_stack company);
         customizations0 = [];
         customizations1 =
           (if matching_tech \<noteq> [] \<and> query_type = ''technical''
            then customizations0 @
              [[CHR 0x0A] @
               ''What's particularly exciting about '' @ name company @
               '' is your tech stack - I have hands-on experience with '' @
               join '', '' (take 3 matching_tech) @
               '', which aligns well with your technology choices.'']
            else customizations0);
         customizations2 =
           (if query_type = ''company_specific''
            then
              (let c1 =
                 (if ''Customer'' \<in> set (company_values company)
                     \<or> ''customer'' \<in> set (map lower (company_values company))
                  then customizations1 @
                    [[CHR 0x0A] @
                     ''Your focus on customer-centricity really resonates with me. Through my mentoring '' @
                     ''work supporting 100+ students and my hospitality experience, I've learned that understanding '' @
                     ''user needs is fundamental to building great solutions.'']
                  else customizations1)
               in (if ''Innovation'' \<in> set (company_values company)
                      \<or> ''innovation'' \<in> set (map lower (company_values company))
                   then c1 @
                     [[CHR 0x0A] @
                      ''I'm particularly drawn to '' @ name company @
                      [CHR 0x27] @
                      ''s emphasis on innovation. Building cutting-edge AI systems like my RAG implementation '' @
                      ''and digital twin projects has shown me how exciting it is to work with emerging '' @
                      ''technologies that solve real problems.'']
                   else c1))
            else customizations1);
         customizations3 =
           (if industry company = ''Financial Services/Insurance''
               \<and> query_type \<in> set [''behavioral'', ''company_specific'']
            then customizations2 @
              [[CHR 0x0A] @
               ''While I don't have direct financial services experience, I'm genuinely interested '' @
               ''in how technology can improve financial accessibility and user experience. My systematic '' @
               ''approach to learning - demonstrated through mastering AI/ML technologies - would '' @
               ''help me quickly understand your domain and contribute meaningfully.'']
            else customizations2);
         customizations4 =
           (if industry company = ''Travel Technology''
            then customizations3 @
              [[CHR 0x0A] @
               ''The travel industry's focus on user experience and seamless digital interactions '' @
               ''aligns perfectly with my full-stack development background and AI integration experience.'']
            else customizations3);
         customizations =
           (if str_in ''Large Enterprise'' (company_size company)
            then customizations4 @
              [[CHR 0x0A] @
               ''I'm excited about the opportunity to work at enterprise scale - my experience building '' @
               ''production systems has shown me the importance of scalability, reliability, and '' @
               ''collaboration in larger organizations.'']
            else customizations4)
     in if customizations \<noteq> [] then base_response @ concat customizations else base_response)"

text \<open>\<open>_add_industry_customization\<close>\<close>

definition add_industry_customization ::
  "string \<Rightarrow> string \<Rightarrow> industry_pattern \<Rightarrow> string \<Rightarrow> string" where
  "add_industry_customization base_response industry_name patterns query_type =
    (let customizations =
       (if industry_name = ''fintech'' \<and> query_type \<in> set [''behavioral'', ''company_specific'']
        then
          [[CHR 0x0A] @
           ''I'm particularly interested in fintech because of the intersection of technology '' @
           ''and quantitative problem-solving. While I don't have direct finance experience, '' @
           ''my systematic approach to learning complex technologies and my attention to detail '' @
           ''in AI system development demonstrate the analytical thinking that's valuable in '' @
           ''financial technology.'']
        else if industry_name = ''consulting'' \<and> query_type = ''behavioral''
        then
          [[CHR 0x0A] @
           ''My mentoring experience has taught me how to understand different client needs and '' @
           ''adapt my communication style accordingly - skills that translate well to consulting '' @
           ''environments where you need to quickly understand client contexts and deliver tailored '' @
           ''solutions.'']
        else if industry_name = ''startup'' \<and> query_type \<in> set [''behavioral'', ''company_specific'']
        then
          [[CHR 0x0A] @
           ''I'm excited about startup environments because of the opportunity to wear multiple '' @
           ''hats and have direct impact. My experience managing multiple responsibilities - '' @
           ''internship, mentoring, studies, and part-time work - has taught me how to be adaptable '' @
           ''and take ownership.'']
        else [])
     in if customizations \<noteq> [] then base_response @ concat customizations else base_response)"

text \<open>\<open>_add_generic_customization\<close>\<close>

definition add_generic_customization :: "string \<Rightarrow> string \<Rightarrow> string \<Rightarrow> string" where
  "add_generic_customization base_response context query_type =
    (if query_type = ''company_specific''
     then
       (let addition =
          [CHR 0x0A, CHR 0x0A] @
          ''I'd love to learn more about your specific challenges and how I could contribute '' @
          ''to your team's success. Based on my research and what we've discussed, it sounds '' @
          ''like there's a great alignment between my technical skills and growth mindset and '' @
          ''what you're looking for.''
        in base_response @ addition)
     else base_response)"

text \<open>
  \<open>_customize_for_industry\<close>: the first industry, in insertion order, one of whose keywords
  occurs in the lower-cased context; otherwise the generic customization.
\<close>

fun customize_for_industry_in ::
  "(string \<times> industry_pattern) list \<Rightarrow> string \<Rightarrow> string \<Rightarrow> string \<Rightarrow> string" where
  "customize_for_industry_in [] base_response context query_type =
    add_generic_customization base_response context query_type"
| "customize_for_industry_in ((industry_name, patterns) # items) base_response context query_type =
    (if any_in (pattern_keywords patterns) (lower context)
     then add_industry_customization base_response industry_name patterns query_type
     else customize_for_industry_in items base_response context query_type)"

definition customize_for_industry :: "string \<Rightarrow> string \<Rightarrow> string \<Rightarrow> string" where
  "customize_for_industry base_response context query_type =
    customize_for_industry_in industry_patterns base_response context query_type"

definition customize_response :: "string \<Rightarrow> string \<Rightarrow> string \<Rightarrow> string" where
  "customize_response base_response company_context query_type =
    (case identify_company company_context of
       Some company_profile \<Rightarrow> customize_for_known_company base_response company_profile query_type
     | None \<Rightarrow> customize_for_industry base_response company_context query_type)"

text \<open>
  \<open>InterviewOptimizedDigitalTwin._customize_for_company\<close> of
  interview\_optimization\_framework.py: an empty context is falsy.
\<close>

definition customize_for_company :: "string \<Rightarrow> string \<Rightarrow> string" where
  "customize_for_company response company_context =
    (if company_context \<noteq> []
     then
       (let addition =
          [CHR 0x0A, CHR 0x0A] @ ''Based on what I know about '' @ company_context @
          '', this experience seems particularly relevant because...''
        in response @ addition)
     else response)"

section \<open>recruiter\_satisfaction\_trainer.py\<close>

text \<open>
  The context dictionary of the trainer, with the three entries the analysis reads; each may
  be absent.  The sub-scores are Python integers; the weighted scores are Python floats,
  modelled here as real numbers (exact arithmetic, no rounding).
\<close>

record trainer_context =
  ctx_role_type :: "string option"
  ctx_company :: "string option"
  ctx_key_skills :: "string list option"

text \<open>\<open>_analyze_content_quality\<close>: the score is accumulated statement by statement.\<close>

definition analyze_content_quality :: "string \<Rightarrow> trainer_context \<Rightarrow> int" where
  "analyze_content_quality response ctx =
    (let score0 = 0;
         metrics_keywords =
           [''%'', ''increased'', ''decreased'', ''improved'', ''reduced'', ''grew'', ''achieved''];
         score1 = (if any_in metrics_keywords (lower response) then score0 + 25 else score0);
         score2 =
           (if ctx_role_type ctx = Some ''technical''
            then
              (let tech_keywords =
                 [''architecture'', ''implementation'', ''optimization'', ''scalability'',
                  ''performance'']
               in if any_in tech_keywords (lower response) then score1 + 20 else score1)
            else score1);
         company_name = lower (case ctx_company ctx of Some c \<Rightarrow> c | None \<Rightarrow> []);
         score3 =
           (if company_name \<noteq> [] \<and> str_in company_name (lower response)
            then score2 + 15 else score2);
         role_keywords = (case ctx_key_skills ctx of Some ks \<Rightarrow> ks | None \<Rightarrow> []);
         relevance_count =
           int (length (filter (\<lambda>skill. str_in (lower skill) (lower response)) role_keywords));
         score4 = score3 + min (relevance_count * 5) 20;
         example_indicators =
           [''when'', ''where'', ''how'', ''specifically'', ''for example'', ''instance''];
         score5 = (if any_in example_indicators (lower response) then score4 + 20 else score4)
     in min score5 100)"

text \<open>\<open>_analyze_structure\<close>\<close>

definition analyze_structure :: "string \<Rightarrow> string \<Rightarrow> int" where
  "analyze_structure response question =
    (let score0 = 0;
         behavioral_questions = [''tell me about'', ''describe a time'', ''give me an example''];
         score1 =
           (if any_in behavioral_questions (lower question)
            then
              (let star_elements = [''situation'', ''task'', ''action'', ''result''];
                   star_count = int (count_in star_elements (lower response))
               in score0 + star_count * 15)
            else score0);
         flow_markers = [''first'', ''then'', ''next'', ''finally'', ''as a result'', ''this led to''];
         score2 = (if any_in flow_markers (lower response) then score1 + 20 else score1);
         wc = int (word_count response);
         score3 =
           (if 225 \<le> wc \<and> wc \<le> 450 then score2 + 30
            else if (180 \<le> wc \<and> wc < 225) \<or> (450 < wc \<and> wc \<le> 500) then score2 + 20
            else if wc < 180 \<or> wc > 500 then score2 + 10
            else score2);
         conclusion_markers =
           [''in summary'', ''overall'', ''this experience'', ''as a result'', ''ultimately''];
         score4 = (if any_in conclusion_markers (lower response) then score3 + 20 else score3)
     in min score4 100)"

text \<open>\<open>_analyze_professional_impact\<close>\<close>

definition analyze_professional_impact :: "string \<Rightarrow> int" where
  "analyze_professional_impact response =
    (let score0 = 0;
         leadership_keywords =
           [''led'', ''managed'', ''coordinated'', ''initiated'', ''drove'', ''spearheaded''];
         leadership_count = int (count_in leadership_keywords (lower response));
         score1 = score0 + min (leadership_count * 15) 30;
         collaboration_keywords =
           [''team'', ''collaborated'', ''worked with'', ''cross-functional'', ''stakeholders''];
         score2 = (if any_in collaboration_keywords (lower response) then score1 + 20 else score1);
         problem_keywords =
           [''challenge'', ''problem'', ''obstacle'', ''difficulty'', ''issue'', ''solved''];
         solution_keywords = [''solution'', ''approach'', ''strategy'', ''method'', ''resolved''];
         has_problem = any_in problem_keywords (lower response);
         has_solution = any_in solution_keywords (lower response);
         score3 = (if has_problem \<and> has_solution then score2 + 25 else score2);
         innovation_keywords =
           [''improved'', ''optimized'', ''enhanced'', ''streamlined'', ''automated'', ''innovated''];
         score4 = (if any_in innovation_keywords (lower response) then score3 + 25 else score3)
     in min score4 100)"

text \<open>\<open>_analyze_engagement\<close>\<close>

definition analyze_engagement :: "string \<Rightarrow> int" where
  "analyze_engagement response =
    (let score0 = 0;
         learning_keywords =
           [''learned'', ''grew'', ''developed'', ''gained'', ''discovered'', ''realized''];
         score1 = (if any_in learning_keywords (lower response) then score0 + 30 else score0);
         enthusiasm_keywords =
           [''excited'', ''passionate'', ''love'', ''enjoy'', ''thrive'', ''motivated''];
         score2 = (if any_in enthusiasm_keywords (lower response) then score1 + 25 else score1);
         authenticity_keywords =
           [''feedback'', ''mistake'', ''challenge'', ''difficult'', ''adapted'', ''adjusted''];
         score3 = (if any_in authenticity_keywords (lower response) then score2 + 25 else score2);
         future_keywords = [''continue'', ''next'', ''future'', ''going forward'', ''plan to'', ''will''];
         score4 = (if any_in future_keywords (lower response) then score3 + 20 else score3)
     in min score4 100)"

record component_scores =
  score_content :: int
  score_structure :: int
  score_impact :: int
  score_engagement :: int

text \<open>\<open>_generate_recommendations\<close>\<close>

definition generate_recommendations :: "component_scores \<Rightarrow> string list" where
  "generate_recommendations scores =
    (if score_content scores < 70
     then [''Add specific, quantifiable examples with metrics'',
           ''Include more technical details relevant to the role'',
           ''Research and reference the company's specific challenges/goals'']
     else [])
    @ (if score_structure scores < 70
       then [''Use STAR method for behavioral questions'',
             ''Add clear transitions between points'',
             ''Aim for 90-180 seconds (225-450 words)'']
       else [])
    @ (if score_impact scores < 70
       then [''Emphasize leadership and initiative-taking'',
             ''Describe collaboration with teams/stakeholders'',
             ''Highlight problem-solving and innovation'']
       else [])
    @ (if score_engagement scores < 70
       then [''Share authentic challenges and learning moments'',
             ''Express genuine enthusiasm for the opportunity'',
             ''Connect experiences to future goals'']
       else [])"

text \<open>The dictionary \<open>analysis\<close> returned by \<open>analyze_response_quality\<close>.\<close>

record analysis =
  overall_score :: real
  component_scores :: component_scores
  satisfaction_prediction :: real
  recommendations :: "string list"
  strengths :: "string list"
  improvement_areas :: "string list"

definition analyze_response_quality :: "string \<Rightarrow> string \<Rightarrow> trainer_context \<Rightarrow> analysis" where
  "analyze_response_quality response question ctx =
    (let content_score = analyze_content_quality response ctx;
         structure_score = analyze_structure response question;
         impact_score = analyze_professional_impact response;
         engagement_score = analyze_engagement response;
         component =
           \<lparr>score_content = content_score, score_structure = structure_score,
            score_impact = impact_score, score_engagement = engagement_score\<rparr>;
         overall =
           real_of_int content_score * 0.35 + real_of_int structure_score * 0.25
           + real_of_int impact_score * 0.25 + real_of_int engagement_score * 0.15;
         satisfaction = min (overall * 0.92 + 8) 100
     in \<lparr>overall_score = overall,
         component_scores = component,
         satisfaction_prediction = satisfaction,
         recommendations = generate_recommendations component,
         strengths = [],
         improvement_areas = []\<rparr>)"

section \<open>interview\_optimization\_framework.py: the pipeline\<close>

subsection \<open>InterviewOptimizedDigitalTwin.process\_interview\_question\<close>

text \<open>\<open>query_type.value\<close>\<close>

fun query_type_value :: "QueryType \<Rightarrow> string" where
  "query_type_value BEHAVIORAL = ''behavioral''"
| "query_type_value TECHNICAL = ''technical''"
| "query_type_value PROJECT_SPECIFIC = ''project_specific''"
| "query_type_value COMPANY_SPECIFIC = ''company_specific''"
| "query_type_value SALARY_LOCATION = ''salary_location''"
| "query_type_value AVAILABILITY = ''availability''"
| "query_type_value PERSONAL_STORY = ''personal_story''"
| "query_type_value GENERAL = ''general''"

text \<open>
  \<open>_generate_contextual_response\<close>.  For the remaining query types the answer is the
  entry \<open>content\<close> of the first context item as it is stored, which need not be a string.
\<close>

definition generate_contextual_response :: "string \<Rightarrow> QueryType \<Rightarrow> pydict list \<Rightarrow> jval" where
  "generate_contextual_response question query_type context =
    (if query_type = SALARY_LOCATION then JStr format_salary_location_response
     else if query_type = AVAILABILITY then JStr format_availability_response
     else if query_type = COMPANY_SPECIFIC then JStr format_company_interest_response
     else (case context of
             item # rest \<Rightarrow> dict_get item ''content'' (JStr [])
           | [] \<Rightarrow> JStr ''I'd be happy to discuss that with you.''))"

text \<open>The dictionary returned by \<open>process_interview_question\<close>.\<close>

record interview_result =
  ir_question :: string
  ir_query_type :: string
  ir_response :: string
  ir_validation :: ValidationResult
  ir_context_used :: "jval list"
  ir_company_context :: "string option"

text \<open>
  \<open>process_interview_question\<close>.  A stored content that is not a string makes the
  customization (\<open>response + addition\<close>) or the validation (\<open>indicator in response\<close>,
  \<open>re.search\<close>) raise \<open>TypeError\<close>; nothing in the method catches it.  An empty company
  context is falsy, like \<open>None\<close>.
\<close>

definition process_interview_question ::
  "knowledge_base \<Rightarrow> (jval \<Rightarrow> string) \<Rightarrow> string \<Rightarrow> string option
     \<Rightarrow> py_exception + interview_result" where
  "process_interview_question kb py_str question company_context =
    (let query_type = classify_query question;
         context = extract_relevant_context kb question query_type;
         generated =
           (if query_type = BEHAVIORAL
            then JStr (generate_behavioral_response py_str question context)
            else if query_type = TECHNICAL
            then JStr (generate_technical_response py_str question context)
            else generate_contextual_response question query_type context)
     in case generated of
          JStr response0 \<Rightarrow>
            (let response =
               (case company_context of
                  Some c \<Rightarrow> if c \<noteq> [] then customize_for_company response0 c else response0
                | None \<Rightarrow> response0);
                 validation = validate_response response query_type
             in Inr \<lparr>ir_question = question,
                     ir_query_type = query_type_value query_type,
                     ir_response = response,
                     ir_validation = validation,
                     ir_context_used =
                       map (\<lambda>item. dict_get item ''title'' (JStr ''Unknown'')) context,
                     ir_company_context = company_context\<rparr>)
        | _ \<Rightarrow> Inl (PyException ''TypeError''))"

section \<open>Context selection\<close>

lemma target_types_default:
  "target_types GENERAL = [''experience'', ''skills'']"
  "target_types PERSONAL_STORY = [''experience'', ''skills'']"
  by (simp_all add: target_types_def relevant_types_def)

lemma type_in_iff:
  "type_in ts chunk \<longleftrightarrow> (\<exists>t \<in> set ts. map_of chunk ''type'' = Some (JStr t))"
  by (auto simp: type_in_def dict_get_def split: option.splits)

text \<open>
  Claim C7.  For every intent and every supplied chunk sequence the selected context has at
  most three chunks, every selected chunk carries a type of the allow-list of the intent, the
  selection is the first three allowed chunks in the order supplied (a subsequence of the
  pool, nothing re-ranked), and the intents without an entry in the table (GENERAL and
  PERSONAL\_STORY) use the default allow-list experience, skills.
\<close>

theorem extract_relevant_context_selects:
  "length (extract_relevant_context kb q qt) \<le> 3
   \<and> (\<forall>c \<in> set (extract_relevant_context kb q qt).
         \<exists>t \<in> set (target_types qt). map_of c ''type'' = Some (JStr t))
   \<and> extract_relevant_context kb q qt =
         take 3 (filter (type_in (target_types qt))
                   (case content_chunks kb of Some cs \<Rightarrow> cs | None \<Rightarrow> []))
   \<and> subseq (extract_relevant_context kb q qt)
         (case content_chunks kb of Some cs \<Rightarrow> cs | None \<Rightarrow> [])
   \<and> target_types GENERAL = [''experience'', ''skills'']
   \<and> target_types PERSONAL_STORY = [''experience'', ''skills'']"
proof -
  define pool where "pool = (case content_chunks kb of Some cs \<Rightarrow> cs | None \<Rightarrow> [])"
  define sel where "sel = extract_relevant_context kb q qt"
  have eq: "sel = take 3 (filter (type_in (target_types qt)) pool)"
    by (simp add: sel_def pool_def extract_relevant_context_def)
  have len: "length sel \<le> 3"
    by (simp add: eq)
  have allowed: "\<forall>c \<in> set sel. \<exists>t \<in> set (target_types qt). map_of c ''type'' = Some (JStr t)"
  proof
    fix c assume "c \<in> set sel"
    then have "c \<in> set (filter (type_in (target_types qt)) pool)"
      unfolding eq by (rule in_set_takeD)
    then show "\<exists>t \<in> set (target_types qt). map_of c ''type'' = Some (JStr t)"
      by (simp add: type_in_iff)
  qed
  have "prefix sel (filter (type_in (target_types qt)) pool)"
    unfolding eq by (rule take_is_prefix)
  then have "subseq sel (filter (type_in (target_types qt)) pool)"
    by (rule prefix_imp_subseq)
  moreover have "subseq (filter (type_in (target_types qt)) pool) pool"
    by (rule subseq_filter_left)
  ultimately have sub: "subseq sel pool"
    by (rule subseq_order.order_trans)
  from len allowed eq sub target_types_default show ?thesis
    unfolding sel_def pool_def by blast
qed

theorem extract_relevant_context_selects_witness:
  "extract_relevant_context
     \<lparr>content_chunks = Some
        [[(''id'', JStr ''a''), (''type'', JStr ''experience'')],
         [(''id'', JStr ''b''), (''type'', JStr ''projects'')],
         [(''id'', JStr ''c'')],
         [(''id'', JStr ''d''), (''type'', JStr ''strengths'')],
         [(''id'', JStr ''e''), (''type'', JStr ''personal_story'')],
         [(''id'', JStr ''f''), (''type'', JStr ''experience'')]]\<rparr>
     ''Tell me about a time'' BEHAVIORAL =
   [[(''id'', JStr ''a''), (''type'', JStr ''experience'')],
    [(''id'', JStr ''d''), (''type'', JStr ''strengths'')],
    [(''id'', JStr ''e''), (''type'', JStr ''personal_story'')]]
   \<and> length (extract_relevant_context
        \<lparr>content_chunks = Some
          [[(''id'', JStr ''a''), (''type'', JStr ''experience'')],
           [(''id'', JStr ''b''), (''type'', JStr ''projects'')],
           [(''id'', JStr ''c'')],
           [(''id'', JStr ''d''), (''type'', JStr ''strengths'')],
           [(''id'', JStr ''e''), (''type'', JStr ''personal_story'')],
           [(''id'', JStr ''f''), (''type'', JStr ''experience'')]]\<rparr>
        ''Tell me about a time'' BEHAVIORAL) \<le> 3"
  using extract_relevant_context_selects
    [of "\<lparr>content_chunks = Some
        [[(''id'', JStr ''a''), (''type'', JStr ''experience'')],
         [(''id'', JStr ''b''), (''type'', JStr ''projects'')],
         [(''id'', JStr ''c'')],
         [(''id'', JStr ''d''), (''type'', JStr ''strengths'')],
         [(''id'', JStr ''e''), (''type'', JStr ''personal_story'')],
         [(''id'', JStr ''f''), (''type'', JStr ''experience'')]]\<rparr>"
        "''Tell me about a time''" BEHAVIORAL]
  by (simp add: extract_relevant_context_def target_types_def relevant_types_def
      type_in_def dict_get_def)

section \<open>Namespace-scoped retrieval\<close>

subsection \<open>The loop and the query in closed form\<close>

lemma chunk_tags_make [simp]:
  "chunk_tags (make_chunk_info r) = metadata_get r ''tags'' (JList [])"
  by (simp add: make_chunk_info_def)

lemma collect_chunks_closed:
  "collect_chunks n rs acc =
    (if list_all (\<lambda>r. tags_joinable (metadata_get r ''tags'' (JList [])))
          (filter (\<lambda>r. result_namespace r = JStr n) rs)
     then Inr (acc @ map make_chunk_info (filter (\<lambda>r. result_namespace r = JStr n) rs))
     else Inl (PyException ''TypeError''))"
  by (induction rs arbitrary: acc) simp_all

lemma query_namespace_closed:
  "query_namespace index q n k =
    (case index \<lparr>data = q, top_k = k, include_metadata = True\<rparr> of
       Inl e \<Rightarrow> []
     | Inr results \<Rightarrow>
         if list_all (\<lambda>r. tags_joinable (metadata_get r ''tags'' (JList [])))
              (filter (\<lambda>r. result_namespace r = JStr n) results)
         then map make_chunk_info (filter (\<lambda>r. result_namespace r = JStr n) results)
         else [])"
  by (simp add: query_namespace_def collect_chunks_closed split: sum.splits)

lemma query_namespace_cases:
  assumes "index \<lparr>data = q, top_k = k, include_metadata = True\<rparr> = Inr results"
  shows "query_namespace index q n k = [] \<or>
         query_namespace index q n k =
           map make_chunk_info (filter (\<lambda>r. result_namespace r = JStr n) results)"
  by (simp add: query_namespace_closed assms)

lemma query_namespace_member:
  assumes "c \<in> set (query_namespace index q n k)"
  shows "\<exists>results r. index \<lparr>data = q, top_k = k, include_metadata = True\<rparr> = Inr results
           \<and> r \<in> set results \<and> result_namespace r = JStr n \<and> c = make_chunk_info r"
proof (cases "index \<lparr>data = q, top_k = k, include_metadata = True\<rparr>")
  case (Inl e)
  with assms show ?thesis by (simp add: query_namespace_closed)
next
  case (Inr results)
  from query_namespace_cases [of index q k results n] Inr assms
  have "c \<in> set (map make_chunk_info (filter (\<lambda>r. result_namespace r = JStr n) results))"
    by auto
  with Inr show ?thesis by auto
qed

lemma result_namespace_no_metadata:
  "metadata r = None \<Longrightarrow> result_namespace r = JStr ''unknown''"
  by (simp add: result_namespace_def metadata_get_def)

lemma result_namespace_stored:
  assumes "result_namespace r = JStr n" and "n \<noteq> ''unknown''"
  shows "\<exists>md. metadata r = Some md \<and> map_of md ''namespace'' = Some (JStr n)"
  using assms
  by (auto simp: result_namespace_def metadata_get_def dict_get_def
      split: option.splits if_splits)

lemma chunk_namespace_make [simp]:
  "chunk_namespace (make_chunk_info r) = result_namespace r"
  by (simp add: make_chunk_info_def)

subsection \<open>Only hits of the requested namespace are returned\<close>

text \<open>
  Claim C1.  For every query text, every store and each of the namespaces dt and food,
  every chunk returned by \<open>query_namespace\<close> carries the requested namespace and was made
  from a hit of the store whose metadata stores that namespace; so a dt query returns no
  food/foods chunk and a food query no dt/digitaltwin chunk, a hit without metadata is
  never among the results, and when no hit of the store's answer is of the requested
  namespace the result is the empty list.
\<close>

theorem query_namespace_only_requested:
  assumes ns: "n = ''dt'' \<or> n = ''food''"
  shows "(\<forall>c \<in> set (query_namespace index q n k).
            chunk_namespace c = JStr n
          \<and> (n = ''dt'' \<longrightarrow> chunk_namespace c \<noteq> JStr ''food'' \<and> chunk_namespace c \<noteq> JStr ''foods'')
          \<and> (n = ''food'' \<longrightarrow> chunk_namespace c \<noteq> JStr ''dt''
                \<and> chunk_namespace c \<noteq> JStr ''digitaltwin'')
          \<and> (\<exists>results r md.
                index \<lparr>data = q, top_k = k, include_metadata = True\<rparr> = Inr results
              \<and> r \<in> set results \<and> c = make_chunk_info r
              \<and> metadata r = Some md \<and> map_of md ''namespace'' = Some (JStr n)))
       \<and> (\<forall>results.
            index \<lparr>data = q, top_k = k, include_metadata = True\<rparr> = Inr results
          \<and> (\<forall>r \<in> set results. result_namespace r \<noteq> JStr n)
          \<longrightarrow> query_namespace index q n k = [])"
proof (intro conjI ballI allI impI)
  fix c assume c: "c \<in> set (query_namespace index q n k)"
  from query_namespace_member [OF c] obtain results r where
    res: "index \<lparr>data = q, top_k = k, include_metadata = True\<rparr> = Inr results"
    and r: "r \<in> set results" and rn: "result_namespace r = JStr n"
    and cr: "c = make_chunk_info r"
    by blast
  from ns have unk: "n \<noteq> ''unknown''" by auto
  show cn: "chunk_namespace c = JStr n"
    by (simp add: cr rn)
  { assume "n = ''dt''"
    with cn show "chunk_namespace c \<noteq> JStr ''food''" and "chunk_namespace c \<noteq> JStr ''foods''"
      by simp_all }
  { assume "n = ''food''"
    with cn show "chunk_namespace c \<noteq> JStr ''dt''" and "chunk_namespace c \<noteq> JStr ''digitaltwin''"
      by simp_all }
  from result_namespace_stored [OF rn unk] obtain md where
    "metadata r = Some md" and "map_of md ''namespace'' = Some (JStr n)"
    by blast
  with res r cr show "\<exists>results r md.
      index \<lparr>data = q, top_k = k, include_metadata = True\<rparr> = Inr results
    \<and> r \<in> set results \<and> c = make_chunk_info r
    \<and> metadata r = Some md \<and> map_of md ''namespace'' = Some (JStr n)"
    by blast
next
  fix results
  assume a: "index \<lparr>data = q, top_k = k, include_metadata = True\<rparr> = Inr results
    \<and> (\<forall>r \<in> set results. result_namespace r \<noteq> JStr n)"
  then have "filter (\<lambda>r. result_namespace r = JStr n) results = []"
    by (simp add: filter_empty_conv)
  with a show "query_namespace index q n k = []"
    by (simp add: query_namespace_closed)
qed

theorem query_namespace_only_requested_witness:
  "query_namespace (ranked_index [food_hit, dt_hit, bare_hit]) ''nutrition protein'' ''dt'' 3 =
     [\<lparr>chunk_id = ''dt-personal_1'', chunk_score = 8 / 10,
       chunk_title = JStr ''Professional Overview'', chunk_type = JStr ''personal_info'',
       chunk_category = JStr ''general'', chunk_content = JStr [],
       chunk_tags = JList [JStr ''professional''], chunk_namespace = JStr ''dt''\<rparr>]
   \<and> query_namespace (ranked_index [food_hit, food_hit]) ''nutrition protein'' ''dt'' 3 = []"
  using query_namespace_only_requested
    [of "''dt''" "ranked_index [food_hit, dt_hit, bare_hit]" "''nutrition protein''" 3]
    query_namespace_only_requested
    [of "''dt''" "ranked_index [food_hit, food_hit]" "''nutrition protein''" 3]
  by (simp add: query_namespace_closed ranked_index_def food_hit_def dt_hit_def bare_hit_def
      make_chunk_info_def result_namespace_def metadata_get_def dict_get_def)

subsection \<open>What is requested from the store, and what is kept\<close>

lemma metadata_get_result_id [simp]:
  "metadata_get (r\<lparr>result_id := i\<rparr>) key dflt = metadata_get r key dflt"
  by (simp add: metadata_get_def)

lemma query_namespace_subseq:
  assumes "index \<lparr>data = q, top_k = k, include_metadata = True\<rparr> = Inr results"
  shows "subseq (query_namespace index q n k) (map make_chunk_info results)"
proof -
  have "subseq (map make_chunk_info (filter (\<lambda>r. result_namespace r = JStr n) results))
          (map make_chunk_info results)"
    by (rule subseq_map) (rule subseq_filter_left)
  with query_namespace_cases [of index q k results n] assms show ?thesis
    by auto
qed

text \<open>
  Claim C4, as the code has it.  \<open>query_namespace\<close> sends the store one request, for exactly
  \<open>top_k\<close> raw results: its result is a function of the store's answer to that request alone.
  It keeps the hits whose namespace metadata equals the requested namespace and never looks
  at the id of a hit.  The result is the kept hits in the store's order when their tags can
  be printed, and the empty list otherwise or when the store raises; it is a subsequence of
  the store's answer, so it is never padded, and there is no input on which an exception
  leaves the function.
\<close>

theorem query_namespace_requests_top_k:
  "(index \<lparr>data = q, top_k = k, include_metadata = True\<rparr> =
      index' \<lparr>data = q, top_k = k, include_metadata = True\<rparr>
      \<longrightarrow> query_namespace index q n k = query_namespace index' q n k)
   \<and> query_namespace index q n k =
       (case index \<lparr>data = q, top_k = k, include_metadata = True\<rparr> of
          Inl e \<Rightarrow> []
        | Inr results \<Rightarrow>
            if list_all (\<lambda>r. tags_joinable (metadata_get r ''tags'' (JList [])))
                 (filter (\<lambda>r. result_namespace r = JStr n) results)
            then map make_chunk_info (filter (\<lambda>r. result_namespace r = JStr n) results)
            else [])
   \<and> result_namespace (r\<lparr>result_id := i\<rparr>) = result_namespace r
   \<and> (\<forall>results. index \<lparr>data = q, top_k = k, include_metadata = True\<rparr> = Inr results
        \<longrightarrow> subseq (query_namespace index q n k) (map make_chunk_info results)
          \<and> length (query_namespace index q n k) \<le> length results)"
proof (intro conjI allI impI)
  assume "index \<lparr>data = q, top_k = k, include_metadata = True\<rparr> =
      index' \<lparr>data = q, top_k = k, include_metadata = True\<rparr>"
  then show "query_namespace index q n k = query_namespace index' q n k"
    by (simp add: query_namespace_closed)
next
  show "query_namespace index q n k =
       (case index \<lparr>data = q, top_k = k, include_metadata = True\<rparr> of
          Inl e \<Rightarrow> []
        | Inr results \<Rightarrow>
            if list_all (\<lambda>r. tags_joinable (metadata_get r ''tags'' (JList [])))
                 (filter (\<lambda>r. result_namespace r = JStr n) results)
            then map make_chunk_info (filter (\<lambda>r. result_namespace r = JStr n) results)
            else [])"
    by (rule query_namespace_closed)
next
  show "result_namespace (r\<lparr>result_id := i\<rparr>) = result_namespace r"
    by (simp add: result_namespace_def)
next
  fix results
  assume a: "index \<lparr>data = q, top_k = k, include_metadata = True\<rparr> = Inr results"
  then show sub: "subseq (query_namespace index q n k) (map make_chunk_info results)"
    by (rule query_namespace_subseq)
  from list_emb_length [OF sub]
  show "length (query_namespace index q n k) \<le> length results"
    by simp
qed

theorem query_namespace_requests_top_k_witness:
  "query_namespace (ranked_index [food_hit, dt_hit, dt_hit2]) ''experience skills'' ''dt'' 2 =
     query_namespace (ranked_index [food_hit, dt_hit]) ''experience skills'' ''dt'' 2
   \<and> length (query_namespace (ranked_index [food_hit, dt_hit, dt_hit2])
        ''experience skills'' ''dt'' 2) \<le> 2"
proof -
  have same: "ranked_index [food_hit, dt_hit, dt_hit2]
        \<lparr>data = ''experience skills'', top_k = 2, include_metadata = True\<rparr> =
      ranked_index [food_hit, dt_hit]
        \<lparr>data = ''experience skills'', top_k = 2, include_metadata = True\<rparr>"
    by (simp add: ranked_index_def)
  have answer: "ranked_index [food_hit, dt_hit, dt_hit2]
        \<lparr>data = ''experience skills'', top_k = 2, include_metadata = True\<rparr> =
      Inr [food_hit, dt_hit]"
    by (simp add: ranked_index_def)
  note inst = query_namespace_requests_top_k
    [where index = "ranked_index [food_hit, dt_hit, dt_hit2]" and q = "''experience skills''"
       and k = 2 and index' = "ranked_index [food_hit, dt_hit]" and n = "''dt''"]
  from inst same
  have eq: "query_namespace (ranked_index [food_hit, dt_hit, dt_hit2]) ''experience skills'' ''dt'' 2 =
      query_namespace (ranked_index [food_hit, dt_hit]) ''experience skills'' ''dt'' 2"
    by blast
  from inst answer
  have "length (query_namespace (ranked_index [food_hit, dt_hit, dt_hit2])
          ''experience skills'' ''dt'' 2) \<le> length [food_hit, dt_hit]"
    by blast
  with eq show ?thesis
    by simp
qed

text \<open>
  The claim as the specification states it fails.  The store ranks a food chunk first and
  two dt chunks after it.  Asked for the two best dt chunks, \<open>query_namespace\<close> requests two
  raw hits and returns one chunk, although the second dt chunk is third in the ranking: the
  same query for three results returns both.  And a hit whose id starts with
  \<open>dt-\<close> but which has no namespace metadata is not returned for dt: the id prefix is no
  fallback.
\<close>

theorem query_namespace_no_overfetch:
  "query_namespace (ranked_index [food_hit, dt_hit, dt_hit2]) ''experience skills'' ''dt'' 2 =
     [make_chunk_info dt_hit]
   \<and> result_namespace dt_hit2 = JStr ''dt''
   \<and> query_namespace (ranked_index [food_hit, dt_hit, dt_hit2]) ''experience skills'' ''dt'' 3 =
     [make_chunk_info dt_hit, make_chunk_info dt_hit2]
   \<and> take 3 (result_id bare_hit) = ''dt-''
   \<and> query_namespace (ranked_index [bare_hit]) ''experience skills'' ''dt'' 2 = []"
  by (simp add: query_namespace_closed ranked_index_def food_hit_def dt_hit_def dt_hit2_def
      bare_hit_def make_chunk_info_def result_namespace_def metadata_get_def dict_get_def)

subsection \<open>The namespace unknown\<close>

lemma result_namespace_empty_metadata:
  "metadata r = Some [] \<Longrightarrow> result_namespace r = JStr ''unknown''"
  by (simp add: result_namespace_def metadata_get_def)

lemma result_namespace_no_entry:
  "metadata r = Some md \<Longrightarrow> map_of md ''namespace'' = None \<Longrightarrow>
     result_namespace r = JStr ''unknown''"
  by (simp add: result_namespace_def metadata_get_def dict_get_def)

lemma result_namespace_unknown_iff:
  "result_namespace r = JStr ''unknown'' \<longleftrightarrow>
     metadata r = None
     \<or> (\<exists>md. metadata r = Some md
           \<and> (map_of md ''namespace'' = None \<or> map_of md ''namespace'' = Some (JStr ''unknown'')))"
  by (auto simp: result_namespace_def metadata_get_def dict_get_def split: option.splits)

lemma make_chunk_info_defaults:
  "metadata r = None \<or> metadata r = Some [] \<Longrightarrow>
     make_chunk_info r =
       \<lparr>chunk_id = result_id r, chunk_score = score r, chunk_title = JStr ''Untitled'',
        chunk_type = JStr ''unknown'', chunk_category = JStr ''general'',
        chunk_content = JStr [], chunk_tags = JList [], chunk_namespace = JStr ''unknown''\<rparr>"
  by (auto simp: make_chunk_info_def result_namespace_def metadata_get_def)

lemma query_namespace_excludes_other_namespace:
  assumes "result_namespace r \<noteq> JStr n"
  shows "make_chunk_info r \<notin> set (query_namespace index q n k)"
proof
  assume "make_chunk_info r \<in> set (query_namespace index q n k)"
  from query_namespace_member [OF this] obtain r' where
    "result_namespace r' = JStr n" and "make_chunk_info r = make_chunk_info r'"
    by blast
  then have "result_namespace r = JStr n"
    by (metis chunk_namespace_make)
  with assms show False
    by simp
qed

text \<open>
  Claim C10, as the code has it.  A hit whose metadata is absent or empty derives the
  namespace unknown and the defaults Untitled, unknown, general, the empty content and no
  tags; a hit whose metadata has no namespace entry derives the namespace unknown as well.
  A hit derives the namespace unknown exactly when its metadata is absent, or has no
  namespace entry (the empty metadata among them), or stores the namespace unknown.  Asked
  for the namespace unknown, \<open>query_namespace\<close> returns, in the store's order, the chunks
  of exactly the hits of the store's answer whose derived namespace is unknown when the
  tags of each of them can be printed, and the empty list otherwise: every hit without
  metadata is among them, and so is every hit with empty metadata or with metadata that
  has no namespace entry.  Asked for any other namespace, it returns no chunk made from a
  hit whose derived namespace is unknown, in particular none made from a hit whose metadata
  is absent, empty or without a namespace entry.
\<close>

theorem query_namespace_unknown:
  "(metadata r = None \<or> metadata r = Some [] \<longrightarrow>
      result_namespace r = JStr ''unknown''
    \<and> make_chunk_info r =
        \<lparr>chunk_id = result_id r, chunk_score = score r, chunk_title = JStr ''Untitled'',
         chunk_type = JStr ''unknown'', chunk_category = JStr ''general'',
         chunk_content = JStr [], chunk_tags = JList [], chunk_namespace = JStr ''unknown''\<rparr>)
   \<and> (metadata r = Some md \<and> map_of md ''namespace'' = None \<longrightarrow>
      result_namespace r = JStr ''unknown'')
   \<and> (result_namespace r = JStr ''unknown'' \<longleftrightarrow>
        metadata r = None
        \<or> (\<exists>md. metadata r = Some md
              \<and> (map_of md ''namespace'' = None
                  \<or> map_of md ''namespace'' = Some (JStr ''unknown''))))
   \<and> (index \<lparr>data = q, top_k = k, include_metadata = True\<rparr> = Inr results
      \<and> list_all (\<lambda>r. tags_joinable (metadata_get r ''tags'' (JList [])))
           (filter (\<lambda>r. result_namespace r = JStr ''unknown'') results)
      \<longrightarrow> query_namespace index q ''unknown'' k =
            map make_chunk_info (filter (\<lambda>r. result_namespace r = JStr ''unknown'') results)
        \<and> (\<forall>r \<in> set results.
              metadata r = None \<or> metadata r = Some []
              \<or> (\<exists>md. metadata r = Some md \<and> map_of md ''namespace'' = None)
              \<longrightarrow> make_chunk_info r \<in> set (query_namespace index q ''unknown'' k)))
   \<and> (index \<lparr>data = q, top_k = k, include_metadata = True\<rparr> = Inr results
      \<and> \<not> list_all (\<lambda>r. tags_joinable (metadata_get r ''tags'' (JList [])))
             (filter (\<lambda>r. result_namespace r = JStr ''unknown'') results)
      \<longrightarrow> query_namespace index q ''unknown'' k = [])
   \<and> (n \<noteq> ''unknown''
      \<and> (result_namespace r = JStr ''unknown'' \<or> metadata r = None \<or> metadata r = Some []
          \<or> (\<exists>md. metadata r = Some md \<and> map_of md ''namespace'' = None))
      \<longrightarrow> make_chunk_info r \<notin> set (query_namespace index q n k))"
proof (intro conjI impI)
  assume m: "metadata r = None \<or> metadata r = Some []"
  then show "result_namespace r = JStr ''unknown''"
    by (auto simp: result_namespace_no_metadata result_namespace_empty_metadata)
  from m show "make_chunk_info r =
        \<lparr>chunk_id = result_id r, chunk_score = score r, chunk_title = JStr ''Untitled'',
         chunk_type = JStr ''unknown'', chunk_category = JStr ''general'',
         chunk_content = JStr [], chunk_tags = JList [], chunk_namespace = JStr ''unknown''\<rparr>"
    by (rule make_chunk_info_defaults)
next
  assume "metadata r = Some md \<and> map_of md ''namespace'' = None"
  then show "result_namespace r = JStr ''unknown''"
    by (simp add: result_namespace_no_entry)
next
  show "result_namespace r = JStr ''unknown'' \<longleftrightarrow>
        metadata r = None
        \<or> (\<exists>md. metadata r = Some md
              \<and> (map_of md ''namespace'' = None
                  \<or> map_of md ''namespace'' = Some (JStr ''unknown'')))"
    by (rule result_namespace_unknown_iff)
next
  assume a: "index \<lparr>data = q, top_k = k, include_metadata = True\<rparr> = Inr results
      \<and> list_all (\<lambda>r. tags_joinable (metadata_get r ''tags'' (JList [])))
           (filter (\<lambda>r. result_namespace r = JStr ''unknown'') results)"
  then show eq: "query_namespace index q ''unknown'' k =
            map make_chunk_info (filter (\<lambda>r. result_namespace r = JStr ''unknown'') results)"
    by (simp add: query_namespace_closed)
  show "\<forall>r \<in> set results.
              metadata r = None \<or> metadata r = Some []
              \<or> (\<exists>md. metadata r = Some md \<and> map_of md ''namespace'' = None)
              \<longrightarrow> make_chunk_info r \<in> set (query_namespace index q ''unknown'' k)"
    unfolding eq
    by (auto simp: result_namespace_no_metadata result_namespace_empty_metadata
        result_namespace_no_entry)
next
  assume "index \<lparr>data = q, top_k = k, include_metadata = True\<rparr> = Inr results
      \<and> \<not> list_all (\<lambda>r. tags_joinable (metadata_get r ''tags'' (JList [])))
             (filter (\<lambda>r. result_namespace r = JStr ''unknown'') results)"
  then show "query_namespace index q ''unknown'' k = []"
    by (simp add: query_namespace_closed)
next
  assume a: "n \<noteq> ''unknown''
      \<and> (result_namespace r = JStr ''unknown'' \<or> metadata r = None \<or> metadata r = Some []
          \<or> (\<exists>md. metadata r = Some md \<and> map_of md ''namespace'' = None))"
  then have "result_namespace r = JStr ''unknown''"
    by (auto simp: result_namespace_no_metadata result_namespace_empty_metadata
        result_namespace_no_entry)
  with a have "result_namespace r \<noteq> JStr n"
    by simp
  then show "make_chunk_info r \<notin> set (query_namespace index q n k)"
    by (rule query_namespace_excludes_other_namespace)
qed

theorem query_namespace_unknown_witness:
  "query_namespace (ranked_index [dt_hit, untagged_hit, empty_hit, bare_hit]) ''anything''
     ''unknown'' 5 =
     [make_chunk_info untagged_hit,
      \<lparr>chunk_id = ''food-blank'', chunk_score = 4 / 10, chunk_title = JStr ''Untitled'',
       chunk_type = JStr ''unknown'', chunk_category = JStr ''general'',
       chunk_content = JStr [], chunk_tags = JList [], chunk_namespace = JStr ''unknown''\<rparr>,
      \<lparr>chunk_id = ''dt-orphan'', chunk_score = 6 / 10, chunk_title = JStr ''Untitled'',
       chunk_type = JStr ''unknown'', chunk_category = JStr ''general'',
       chunk_content = JStr [], chunk_tags = JList [], chunk_namespace = JStr ''unknown''\<rparr>]
   \<and> result_namespace untagged_hit = JStr ''unknown''
   \<and> make_chunk_info bare_hit \<notin> set (query_namespace
        (ranked_index [dt_hit, untagged_hit, empty_hit, bare_hit]) ''anything'' ''dt'' 5)"
proof -
  let ?results = "[dt_hit, untagged_hit, empty_hit, bare_hit]"
  note bare = query_namespace_unknown
    [where r = bare_hit and index = "ranked_index ?results" and q = "''anything''"
       and k = 5 and results = ?results and n = "''dt''"]
  note blank = query_namespace_unknown [where r = empty_hit]
  note untagged = query_namespace_unknown
    [where r = untagged_hit and md = "[(''title'', JStr ''Old entry'')]"]
  have bare_md: "metadata bare_hit = None"
    by (simp add: bare_hit_def)
  have blank_md: "metadata empty_hit = Some []"
    by (simp add: empty_hit_def)
  have untagged_md: "metadata untagged_hit = Some [(''title'', JStr ''Old entry'')]
      \<and> map_of [(''title'', JStr ''Old entry'')] ''namespace'' = None"
    by (simp add: untagged_hit_def)
  have dt: "result_namespace dt_hit \<noteq> JStr ''unknown''"
    by (simp add: dt_hit_def result_namespace_def metadata_get_def dict_get_def)
  from bare bare_md have bare_ns: "result_namespace bare_hit = JStr ''unknown''"
    by blast
  from blank blank_md have blank_ns: "result_namespace empty_hit = JStr ''unknown''"
    by blast
  from untagged untagged_md have untagged_ns: "result_namespace untagged_hit = JStr ''unknown''"
    by blast
  have answer: "ranked_index ?results
      \<lparr>data = ''anything'', top_k = 5, include_metadata = True\<rparr> = Inr ?results"
    by (simp add: ranked_index_def)
  have kept: "filter (\<lambda>r. result_namespace r = JStr ''unknown'') ?results =
      [untagged_hit, empty_hit, bare_hit]"
    by (simp add: dt bare_ns blank_ns untagged_ns)
  have printable: "list_all (\<lambda>r. tags_joinable (metadata_get r ''tags'' (JList [])))
      (filter (\<lambda>r. result_namespace r = JStr ''unknown'') ?results)"
    unfolding kept
    by (simp add: bare_hit_def empty_hit_def untagged_hit_def metadata_get_def dict_get_def)
  from bare answer printable
  have returned: "query_namespace (ranked_index ?results) ''anything'' ''unknown'' 5 =
      map make_chunk_info (filter (\<lambda>r. result_namespace r = JStr ''unknown'') ?results)"
    by blast
  from bare bare_md
  have bare_chunk: "make_chunk_info bare_hit = \<lparr>chunk_id = result_id bare_hit,
      chunk_score = score bare_hit,
      chunk_title = JStr ''Untitled'', chunk_type = JStr ''unknown'',
      chunk_category = JStr ''general'', chunk_content = JStr [], chunk_tags = JList [],
      chunk_namespace = JStr ''unknown''\<rparr>"
    by blast
  from blank blank_md
  have blank_chunk: "make_chunk_info empty_hit = \<lparr>chunk_id = result_id empty_hit,
      chunk_score = score empty_hit,
      chunk_title = JStr ''Untitled'', chunk_type = JStr ''unknown'',
      chunk_category = JStr ''general'', chunk_content = JStr [], chunk_tags = JList [],
      chunk_namespace = JStr ''unknown''\<rparr>"
    by blast
  have "''dt'' \<noteq> ''unknown''"
    by simp
  with bare bare_md
  have excluded: "make_chunk_info bare_hit \<notin> set (query_namespace (ranked_index ?results)
        ''anything'' ''dt'' 5)"
    by blast
  have ids: "result_id bare_hit = ''dt-orphan''" "score bare_hit = 6 / 10"
      "result_id empty_hit = ''food-blank''" "score empty_hit = 4 / 10"
    by (simp_all add: bare_hit_def empty_hit_def)
  show ?thesis
    unfolding returned kept
    using excluded untagged_ns by (simp add: bare_chunk blank_chunk ids)
qed

text \<open>
  The claim as stated fails: a hit that has metadata, but no namespace entry in it, is
  returned for the namespace unknown as well, so the result is not exactly the hits
  without metadata.
\<close>

theorem query_namespace_unknown_not_only_bare:
  "metadata untagged_hit = Some [(''title'', JStr ''Old entry'')]
   \<and> metadata bare_hit = None
   \<and> query_namespace (ranked_index [untagged_hit, bare_hit]) ''anything'' ''unknown'' 5 =
       [make_chunk_info untagged_hit, make_chunk_info bare_hit]
   \<and> query_namespace (ranked_index [untagged_hit, bare_hit]) ''anything'' ''unknown'' 5 \<noteq>
       [make_chunk_info bare_hit]"
  by (simp add: query_namespace_closed ranked_index_def untagged_hit_def bare_hit_def
      make_chunk_info_def result_namespace_def metadata_get_def dict_get_def)

subsection \<open>Failures of the store and of the completion service\<close>

text \<open>
  Claim C8.  When the store's query raises, \<open>query_namespace\<close> returns the empty list.  Given
  an empty chunk list, \<open>generate_response\<close> returns the placeholder naming the namespace and
  sends no request to the completion service.  So a question put to a store that raises is
  answered with the placeholder and no sources, and an exception of the completion service
  becomes the text of the answer.
\<close>

theorem failures_do_not_propagate:
  "(index \<lparr>data = q, top_k = k, include_metadata = True\<rparr> = Inl e
      \<longrightarrow> query_namespace index q n k = []
        \<and> digital_twin_query index groq_client py_str q k =
            \<lparr>answer_query = q, answer_namespace = ''dt'', answer_relevant_chunks = [],
             answer_response = ''I couldn't find relevant information in the '' @ [CHR 0x27] @
               ''dt'' @ [CHR 0x27] @ '' namespace for your query.'',
             sources_count = 0\<rparr>)
   \<and> generate_response groq_client py_str q [] n =
       (''I couldn't find relevant information in the '' @ [CHR 0x27] @ n @ [CHR 0x27] @
          '' namespace for your query.'', [])
   \<and> (chunks \<noteq> [] \<and> (\<forall>request. groq_client request = Inl (PyException msg))
      \<longrightarrow> fst (generate_response groq_client py_str q chunks n) =
            ''Error generating response: '' @ msg)"
  by (simp add: query_namespace_def digital_twin_query_def generate_response_def Let_def)

theorem failures_do_not_propagate_witness:
  "query_namespace (\<lambda>request. Inl (PyException ''connection timed out''))
     ''experience skills'' ''dt'' 3 = []
   \<and> fst (generate_response (\<lambda>request. Inl (PyException ''rate limit'')) (\<lambda>v. ''?'')
        ''experience skills'' [make_chunk_info dt_hit] ''dt'') =
       ''Error generating response: rate limit''"
  using failures_do_not_propagate
    [where index = "\<lambda>request. Inl (PyException ''connection timed out'')"
       and q = "''experience skills''" and k = 3 and e = "PyException ''connection timed out''"
       and n = "''dt''" and groq_client = "\<lambda>request. Inl (PyException ''rate limit'')"
       and py_str = "\<lambda>v. ''?''" and chunks = "[make_chunk_info dt_hit]"
       and msg = "''rate limit''"]
  by simp

section \<open>Upserted chunks and the namespace filter\<close>

lemma concat_batches:
  "0 < n \<Longrightarrow> concat (batches n xs) = xs"
proof (induction n xs rule: batches.induct)
  case (1 batch_size vectors)
  then show ?case
    by (subst batches.simps) auto
qed

lemma upload_batches_subset:
  "v \<in> set (concat (upload_batches upsert vectors)) \<Longrightarrow> v \<in> set vectors"
proof -
  assume "v \<in> set (concat (upload_batches upsert vectors))"
  then have "v \<in> set (concat (batches 50 vectors))"
    by (auto simp: upload_batches_def)
  then show ?thesis
    by (simp add: concat_batches)
qed

lemma upload_batches_all:
  "(\<forall>batch. upsert batch = Inr ()) \<Longrightarrow> concat (upload_batches upsert vectors) = vectors"
  by (simp add: upload_batches_def concat_batches)

lemma digital_twin_vector_namespace:
  "vector_id (digital_twin_vector py_str chunk) = ''dt-'' @ cc_id chunk"
  "map_of (vector_metadata (digital_twin_vector py_str chunk)) ''namespace'' =
     Some (JStr digitaltwin_NAMESPACE)"
  "result_namespace (hit_of (digital_twin_vector py_str chunk) s) = JStr digitaltwin_NAMESPACE"
  by (simp_all add: digital_twin_vector_def vector_id_def vector_metadata_def hit_of_def
      result_namespace_def metadata_get_def dict_get_def)

lemma foods_vector_namespace:
  "vector_id (foods_vector py_str chunk) = ''food-'' @ cc_id chunk"
  "map_of (vector_metadata (foods_vector py_str chunk)) ''namespace'' =
     Some (JStr foods_NAMESPACE)"
  "result_namespace (hit_of (foods_vector py_str chunk) s) = JStr foods_NAMESPACE"
  by (simp_all add: foods_vector_def vector_id_def vector_metadata_def hit_of_def
      result_namespace_def metadata_get_def dict_get_def)

lemma batches_single:
  "batches 50 [x] = [[x]]"
  by (simp add: batches.simps)

lemma query_namespace_keeps:
  assumes "index \<lparr>data = q, top_k = k, include_metadata = True\<rparr> = Inr results"
    and "list_all (\<lambda>r. tags_joinable (metadata_get r ''tags'' (JList [])))
           (filter (\<lambda>r. result_namespace r = JStr n) results)"
  shows "query_namespace index q n k =
      map make_chunk_info (filter (\<lambda>r. result_namespace r = JStr n) results)"
  using assms by (simp add: query_namespace_closed)

text \<open>
  Claim C2, as the code has it.  Every vector that \<open>embed_digital_twin\<close> hands to the store
  comes from a chunk, its id is \<open>dt-\<close> followed by the chunk's id and its namespace
  metadata is the script's constant \<open>NAMESPACE\<close>, digitaltwin; every vector of
  \<open>embed_foods_data\<close> has the id prefix \<open>food-\<close> and that script's constant, foods.  So
  the id prefix and the namespace entry of every chunk these two scripts upsert agree.
  When \<open>query_namespace\<close> is called with that stored value as its namespace argument, it
  keeps every such chunk that the store returns among its raw results (when the tags of
  the kept hits can be printed): the result is the chunks of the returned hits of that
  namespace, in the store's order.  When no batch fails, every chunk's vector is stored.
\<close>

theorem upserted_chunk_prefix_and_namespace_agree:
  "(\<forall>v \<in> set (concat (embed_digital_twin upsert py_str chunks)).
      (\<exists>chunk \<in> set chunks. v = digital_twin_vector py_str chunk
          \<and> vector_id v = ''dt-'' @ cc_id chunk)
    \<and> prefix ''dt-'' (vector_id v)
    \<and> digitaltwin_NAMESPACE = ''digitaltwin''
    \<and> map_of (vector_metadata v) ''namespace'' = Some (JStr digitaltwin_NAMESPACE)
    \<and> result_namespace (hit_of v s) = JStr digitaltwin_NAMESPACE
    \<and> (index \<lparr>data = q, top_k = k, include_metadata = True\<rparr> = Inr results
        \<and> hit_of v s \<in> set results
        \<and> list_all (\<lambda>r. tags_joinable (metadata_get r ''tags'' (JList [])))
             (filter (\<lambda>r. result_namespace r = JStr digitaltwin_NAMESPACE) results)
        \<longrightarrow> query_namespace index q digitaltwin_NAMESPACE k =
              map make_chunk_info
                (filter (\<lambda>r. result_namespace r = JStr digitaltwin_NAMESPACE) results)
          \<and> make_chunk_info (hit_of v s) \<in> set (query_namespace index q digitaltwin_NAMESPACE k)))
   \<and> (\<forall>v \<in> set (concat (embed_foods_data upsert py_str chunks)).
      (\<exists>chunk \<in> set chunks. v = foods_vector py_str chunk
          \<and> vector_id v = ''food-'' @ cc_id chunk)
    \<and> prefix ''food-'' (vector_id v)
    \<and> foods_NAMESPACE = ''foods''
    \<and> map_of (vector_metadata v) ''namespace'' = Some (JStr foods_NAMESPACE)
    \<and> result_namespace (hit_of v s) = JStr foods_NAMESPACE
    \<and> (index \<lparr>data = q, top_k = k, include_metadata = True\<rparr> = Inr results
        \<and> hit_of v s \<in> set results
        \<and> list_all (\<lambda>r. tags_joinable (metadata_get r ''tags'' (JList [])))
             (filter (\<lambda>r. result_namespace r = JStr foods_NAMESPACE) results)
        \<longrightarrow> query_namespace index q foods_NAMESPACE k =
              map make_chunk_info
                (filter (\<lambda>r. result_namespace r = JStr foods_NAMESPACE) results)
          \<and> make_chunk_info (hit_of v s) \<in> set (query_namespace index q foods_NAMESPACE k)))
   \<and> ((\<forall>batch. upsert batch = Inr ())
      \<longrightarrow> concat (embed_digital_twin upsert py_str chunks) = map (digital_twin_vector py_str) chunks
        \<and> concat (embed_foods_data upsert py_str chunks) = map (foods_vector py_str) chunks)"
proof (intro conjI ballI impI)
  fix v assume "v \<in> set (concat (embed_digital_twin upsert py_str chunks))"
  then have "v \<in> set (map (digital_twin_vector py_str) chunks)"
    unfolding embed_digital_twin_def by (rule upload_batches_subset)
  then obtain chunk where c: "chunk \<in> set chunks" and v: "v = digital_twin_vector py_str chunk"
    by auto
  from c v show "\<exists>chunk \<in> set chunks. v = digital_twin_vector py_str chunk
      \<and> vector_id v = ''dt-'' @ cc_id chunk"
    by (auto simp: digital_twin_vector_namespace)
  show "prefix ''dt-'' (vector_id v)"
    by (simp add: v digital_twin_vector_namespace)
  show "digitaltwin_NAMESPACE = ''digitaltwin''"
    by (rule digitaltwin_NAMESPACE_def)
  show "map_of (vector_metadata v) ''namespace'' = Some (JStr digitaltwin_NAMESPACE)"
    by (simp add: v digital_twin_vector_namespace)
  show ns: "result_namespace (hit_of v s) = JStr digitaltwin_NAMESPACE"
    by (simp add: v digital_twin_vector_namespace)
  assume a: "index \<lparr>data = q, top_k = k, include_metadata = True\<rparr> = Inr results
      \<and> hit_of v s \<in> set results
      \<and> list_all (\<lambda>r. tags_joinable (metadata_get r ''tags'' (JList [])))
           (filter (\<lambda>r. result_namespace r = JStr digitaltwin_NAMESPACE) results)"
  then show eq: "query_namespace index q digitaltwin_NAMESPACE k =
      map make_chunk_info (filter (\<lambda>r. result_namespace r = JStr digitaltwin_NAMESPACE) results)"
    by (simp add: query_namespace_keeps)
  from a ns show "make_chunk_info (hit_of v s) \<in> set (query_namespace index q digitaltwin_NAMESPACE k)"
    unfolding eq by simp
next
  fix v assume "v \<in> set (concat (embed_foods_data upsert py_str chunks))"
  then have "v \<in> set (concat (upload_batches upsert (map (foods_vector py_str) chunks)))"
    unfolding embed_foods_data_def by (cases "chunks = []") simp_all
  then have "v \<in> set (map (foods_vector py_str) chunks)"
    by (rule upload_batches_subset)
  then obtain chunk where c: "chunk \<in> set chunks" and v: "v = foods_vector py_str chunk"
    by auto
  from c v show "\<exists>chunk \<in> set chunks. v = foods_vector py_str chunk
      \<and> vector_id v = ''food-'' @ cc_id chunk"
    by (auto simp: foods_vector_namespace)
  show "prefix ''food-'' (vector_id v)"
    by (simp add: v foods_vector_namespace)
  show "foods_NAMESPACE = ''foods''"
    by (rule foods_NAMESPACE_def)
  show "map_of (vector_metadata v) ''namespace'' = Some (JStr foods_NAMESPACE)"
    by (simp add: v foods_vector_namespace)
  show ns: "result_namespace (hit_of v s) = JStr foods_NAMESPACE"
    by (simp add: v foods_vector_namespace)
  assume a: "index \<lparr>data = q, top_k = k, include_metadata = True\<rparr> = Inr results
      \<and> hit_of v s \<in> set results
      \<and> list_all (\<lambda>r. tags_joinable (metadata_get r ''tags'' (JList [])))
           (filter (\<lambda>r. result_namespace r = JStr foods_NAMESPACE) results)"
  then show eq: "query_namespace index q foods_NAMESPACE k =
      map make_chunk_info (filter (\<lambda>r. result_namespace r = JStr foods_NAMESPACE) results)"
    by (simp add: query_namespace_keeps)
  from a ns show "make_chunk_info (hit_of v s) \<in> set (query_namespace index q foods_NAMESPACE k)"
    unfolding eq by simp
next
  assume ok: "\<forall>batch. upsert batch = Inr ()"
  then show "concat (embed_digital_twin upsert py_str chunks) =
      map (digital_twin_vector py_str) chunks"
    by (simp add: embed_digital_twin_def upload_batches_all)
  from ok show "concat (embed_foods_data upsert py_str chunks) = map (foods_vector py_str) chunks"
    by (simp add: embed_foods_data_def upload_batches_all)
qed

theorem upserted_chunk_prefix_and_namespace_agree_witness:
  "concat (embed_digital_twin accept_all example_str [example_chunk]) =
     [digital_twin_vector example_str example_chunk]
   \<and> vector_id (digital_twin_vector example_str example_chunk) = ''dt-personal_1''
   \<and> map_of (vector_metadata (digital_twin_vector example_str example_chunk)) ''namespace'' =
       Some (JStr ''digitaltwin'')
   \<and> query_namespace
        (ranked_index [food_hit, hit_of (digital_twin_vector example_str example_chunk) (1 / 2)])
        ''experience'' ''digitaltwin'' 5 =
       [make_chunk_info (hit_of (digital_twin_vector example_str example_chunk) (1 / 2))]
   \<and> chunk_namespace
        (make_chunk_info (hit_of (digital_twin_vector example_str example_chunk) (1 / 2))) =
       JStr ''digitaltwin''"
proof -
  let ?v = "digital_twin_vector example_str example_chunk"
  let ?up = "accept_all :: vector list \<Rightarrow> py_exception + unit"
  let ?results = "[food_hit, hit_of ?v (1 / 2)]"
  note inst = upserted_chunk_prefix_and_namespace_agree
    [where upsert = ?up and py_str = example_str
       and chunks = "[example_chunk]" and s = "1 / 2" and q = "''experience''" and k = 5
       and index = "ranked_index ?results" and results = ?results]
  have accepts: "\<forall>batch. ?up batch = Inr ()"
    by (simp add: accept_all_def)
  with inst
  have stored: "concat (embed_digital_twin ?up example_str [example_chunk]) = [?v]"
    by simp
  then have mem: "?v \<in> set (concat (embed_digital_twin ?up example_str [example_chunk]))"
    by simp
  from inst mem have name: "digitaltwin_NAMESPACE = ''digitaltwin''"
    by blast
  from inst mem have ns: "result_namespace (hit_of ?v (1 / 2)) = JStr digitaltwin_NAMESPACE"
    by blast
  from inst mem
  have md: "map_of (vector_metadata ?v) ''namespace'' = Some (JStr digitaltwin_NAMESPACE)"
    by blast
  have food: "result_namespace food_hit \<noteq> JStr digitaltwin_NAMESPACE"
    by (simp add: food_hit_def result_namespace_def metadata_get_def dict_get_def
        digitaltwin_NAMESPACE_def)
  have answer: "ranked_index ?results
      \<lparr>data = ''experience'', top_k = 5, include_metadata = True\<rparr> = Inr ?results"
    by (simp add: ranked_index_def)
  have kept: "filter (\<lambda>r. result_namespace r = JStr digitaltwin_NAMESPACE) ?results =
      [hit_of ?v (1 / 2)]"
    by (simp add: food ns)
  have printable: "list_all (\<lambda>r. tags_joinable (metadata_get r ''tags'' (JList [])))
      (filter (\<lambda>r. result_namespace r = JStr digitaltwin_NAMESPACE) ?results)"
    unfolding kept
    by (simp add: hit_of_def vector_metadata_def digital_twin_vector_def metadata_get_def
        dict_get_def example_chunk_def)
  have returned_hit: "hit_of ?v (1 / 2) \<in> set ?results"
    by simp
  from inst mem answer returned_hit printable
  have q: "query_namespace (ranked_index ?results) ''experience'' digitaltwin_NAMESPACE 5 =
      map make_chunk_info
        (filter (\<lambda>r. result_namespace r = JStr digitaltwin_NAMESPACE) ?results)"
    by blast
  from inst mem have "\<exists>chunk \<in> set [example_chunk]. ?v = digital_twin_vector
      example_str chunk \<and> vector_id ?v = ''dt-'' @ cc_id chunk"
    by blast
  then have vid: "vector_id ?v = ''dt-personal_1''"
    by (simp add: example_chunk_def)
  from q have q': "query_namespace (ranked_index ?results) ''experience'' ''digitaltwin'' 5 =
      [make_chunk_info (hit_of ?v (1 / 2))]"
    unfolding kept by (simp add: name)
  from stored vid q' ns md show ?thesis
    by (simp add: name)
qed

text \<open>
  The claim as stated fails.  The namespace the two scripts store is not the one the
  entry points filter on: \<open>digital_twin_query\<close> asks for dt, so the chunk stored under
  digitaltwin is not among its sources, though the store returns its hit.  A chunk that
  the store does not return among the requested number of raw results is not returned for
  its own namespace either.  And not every upload of the repository writes a prefixed id
  and a namespace entry: the dictionary \<open>upload_optimized_data\<close> upserts has the id of the
  chunk as it is and no namespace entry in its metadata, so its hit derives the namespace
  unknown and no dt query returns it.
\<close>

theorem upserted_chunk_not_returned:
  "concat (embed_digital_twin accept_all example_str [example_chunk]) =
     [digital_twin_vector example_str example_chunk]
   \<and> map_of (vector_metadata (digital_twin_vector example_str example_chunk)) ''namespace'' =
       Some (JStr ''digitaltwin'')
   \<and> query_namespace (ranked_index [hit_of (digital_twin_vector example_str example_chunk) 1])
        ''experience'' ''dt'' 5 = []
   \<and> answer_relevant_chunks
        (digital_twin_query (ranked_index [hit_of (digital_twin_vector example_str example_chunk) 1])
           fixed_service example_str ''experience'' 5) = []
   \<and> query_namespace
        (ranked_index [food_hit, hit_of (digital_twin_vector example_str example_chunk) (1 / 2)])
        ''experience'' ''digitaltwin'' 1 = []
   \<and> upserted_optimized accept_all [example_optimized_chunk] =
       [optimized_vector_data example_optimized_chunk]
   \<and> vd_id (optimized_vector_data example_optimized_chunk) = ''overview''
   \<and> map_of (vd_metadata (optimized_vector_data example_optimized_chunk)) ''namespace'' = None
   \<and> result_namespace (stored_hit (optimized_vector_data example_optimized_chunk) 1) =
       JStr ''unknown''
   \<and> query_namespace (ranked_index [stored_hit (optimized_vector_data example_optimized_chunk) 1])
        ''overview'' ''dt'' 5 = []"
proof (intro conjI)
  let ?v = "digital_twin_vector example_str example_chunk"
  let ?d = "optimized_vector_data example_optimized_chunk"
  show "concat (embed_digital_twin accept_all example_str [example_chunk]) = [?v]"
    by (simp add: embed_digital_twin_def upload_batches_def batches_single accept_all_def)
  show "map_of (vector_metadata ?v) ''namespace'' = Some (JStr ''digitaltwin'')"
    by (simp add: digital_twin_vector_namespace digitaltwin_NAMESPACE_def)
  have ns: "result_namespace (hit_of ?v s) = JStr ''digitaltwin''" for s
    by (simp add: digital_twin_vector_namespace digitaltwin_NAMESPACE_def)
  show dt: "query_namespace (ranked_index [hit_of ?v 1]) ''experience'' ''dt'' 5 = []"
    by (simp add: query_namespace_closed ranked_index_def ns)
  show "answer_relevant_chunks
      (digital_twin_query (ranked_index [hit_of ?v 1]) fixed_service example_str
         ''experience'' 5) = []"
    by (simp add: digital_twin_query_def Let_def dt)
  have food: "result_namespace food_hit = JStr ''food''"
    by (simp add: food_hit_def result_namespace_def metadata_get_def dict_get_def)
  show "query_namespace (ranked_index [food_hit, hit_of ?v (1 / 2)])
      ''experience'' ''digitaltwin'' 1 = []"
    by (simp add: query_namespace_closed ranked_index_def food)
  show "upserted_optimized accept_all [example_optimized_chunk] = [?d]"
    by (simp add: upserted_optimized_def accept_all_def)
  show "vd_id ?d = ''overview''"
    by (simp add: optimized_vector_data_def example_optimized_chunk_def)
  show md: "map_of (vd_metadata ?d) ''namespace'' = None"
    by (simp add: optimized_vector_data_def)
  have "metadata (stored_hit ?d 1) = Some (vd_metadata ?d)"
    by (simp add: stored_hit_def)
  then show unknown: "result_namespace (stored_hit ?d 1) = JStr ''unknown''"
    using md by (rule result_namespace_no_entry)
  show "query_namespace (ranked_index [stored_hit ?d 1]) ''overview'' ''dt'' 5 = []"
    by (simp add: query_namespace_closed ranked_index_def unknown)
qed

text \<open>
  The fixed entry points \<open>digital_twin_query\<close> and \<open>food_query\<close> ask for the short codes
  dt and food.  They differ from the namespaces the two scripts above store, so a chunk
  stored by these scripts is returned by \<open>query_namespace\<close> for digitaltwin or foods and
  not by the two entry points.
\<close>

lemma entry_points_use_short_codes:
  "answer_relevant_chunks
     (digital_twin_query (ranked_index [hit_of (digital_twin_vector py_str chunk) s])
        groq_client py_str q 5) = []"
  "answer_relevant_chunks
     (food_query (ranked_index [hit_of (foods_vector py_str chunk) s]) groq_client py_str q 5) = []"
  by (simp_all add: digital_twin_query_def food_query_def Let_def query_namespace_closed
      ranked_index_def digital_twin_vector_namespace foods_vector_namespace
      digitaltwin_NAMESPACE_def foods_NAMESPACE_def)

section \<open>Company customization only appends\<close>

lemma prefix_if_append:
  "prefix b (if c then b @ x else b)"
  by simp

lemma customize_for_known_company_prefix:
  "prefix base_response (customize_for_known_company base_response company query_type)"
  unfolding customize_for_known_company_def Let_def by (rule prefix_if_append)

lemma add_industry_customization_prefix:
  "prefix base_response (add_industry_customization base_response industry_name patterns query_type)"
  unfolding add_industry_customization_def Let_def by (rule prefix_if_append)

lemma add_generic_customization_prefix:
  "prefix base_response (add_generic_customization base_response context query_type)"
  by (simp add: add_generic_customization_def Let_def)

lemma customize_for_industry_in_prefix:
  "prefix base_response (customize_for_industry_in items base_response context query_type)"
proof (induction items)
  case Nil
  show ?case
    by (simp add: add_generic_customization_prefix)
next
  case (Cons item items)
  then show ?case
    by (cases item) (simp add: add_industry_customization_prefix)
qed

text \<open>
  Claim C9.  For every base response, company context and query type the customized
  response starts with the base response: on the known-company path, on the
  industry-pattern path and on the generic path text is only appended.  The same holds for
  the framework's own \<open>_customize_for_company\<close>.
\<close>

theorem customization_is_additive:
  "prefix base_response (customize_response base_response company_context query_type)
   \<and> prefix base_response (customize_for_known_company base_response company query_type)
   \<and> prefix base_response (customize_for_industry base_response company_context query_type)
   \<and> prefix base_response (add_generic_customization base_response company_context query_type)
   \<and> prefix base_response (customize_for_company base_response company_context)"
proof (intro conjI)
  show "prefix base_response (customize_response base_response company_context query_type)"
    by (simp add: customize_response_def customize_for_known_company_prefix
        customize_for_industry_def customize_for_industry_in_prefix split: option.splits)
  show "prefix base_response (customize_for_known_company base_response company query_type)"
    by (rule customize_for_known_company_prefix)
  show "prefix base_response (customize_for_industry base_response company_context query_type)"
    by (simp add: customize_for_industry_def customize_for_industry_in_prefix)
  show "prefix base_response (add_generic_customization base_response company_context query_type)"
    by (rule add_generic_customization_prefix)
  show "prefix base_response (customize_for_company base_response company_context)"
    by (simp add: customize_for_company_def Let_def)
qed

section \<open>Query classification\<close>

lemma first_matching_group_at:
  assumes "i < length groups"
    and "any_search (snd (groups ! i)) s"
    and "\<forall>j < i. \<not> any_search (snd (groups ! j)) s"
  shows "first_matching_group groups s = fst (groups ! i)"
  using assms
proof (induction groups arbitrary: i)
  case Nil
  then show ?case by simp
next
  case (Cons g groups)
  obtain intent patterns where g: "g = (intent, patterns)"
    by (cases g)
  show ?case
  proof (cases i)
    case 0
    with Cons.prems g show ?thesis by simp
  next
    case (Suc k)
    with Cons.prems have head: "\<not> any_search (snd ((g # groups) ! 0)) s"
      by blast
    from Suc Cons.prems have "k < length groups" and "any_search (snd (groups ! k)) s"
      by simp_all
    moreover from Suc Cons.prems have "\<forall>j < k. \<not> any_search (snd (groups ! j)) s"
      by (metis Suc_less_eq nth_Cons_Suc)
    ultimately have "first_matching_group groups s = fst (groups ! k)"
      by (rule Cons.IH)
    with head g Suc show ?thesis by simp
  qed
qed

lemma first_matching_group_none:
  "(\<forall>g \<in> set groups. \<not> any_search (snd g) s) \<Longrightarrow> first_matching_group groups s = GENERAL"
  by (induction groups) auto

lemma first_matching_group_range:
  "first_matching_group groups s \<in> insert GENERAL (fst ` set groups)"
proof (induction groups)
  case Nil
  show ?case by simp
next
  case (Cons g groups)
  obtain intent patterns where g: "g = (intent, patterns)"
    by (cases g)
  show ?case
  proof (cases "any_search patterns s")
    case True
    with g show ?thesis by simp
  next
    case False
    with g have "first_matching_group (g # groups) s = first_matching_group groups s"
      by simp
    with Cons.IH show ?thesis by auto
  qed
qed

lemma first_matching_group_general:
  assumes "first_matching_group groups s = GENERAL" and "GENERAL \<notin> fst ` set groups"
  shows "\<forall>g \<in> set groups. \<not> any_search (snd g) s"
  using assms
proof (induction groups)
  case Nil
  show ?case by simp
next
  case (Cons g groups)
  obtain intent patterns where g: "g = (intent, patterns)"
    by (cases g)
  from Cons.prems g have ne: "intent \<noteq> GENERAL"
    by auto
  show ?case
  proof (cases "any_search patterns s")
    case True
    with g Cons.prems ne show ?thesis by simp
  next
    case False
    with g Cons.prems have "first_matching_group groups s = GENERAL"
      by simp
    moreover from Cons.prems have "GENERAL \<notin> fst ` set groups"
      by simp
    ultimately have "\<forall>g \<in> set groups. \<not> any_search (snd g) s"
      by (rule Cons.IH)
    with False g show ?thesis by simp
  qed
qed

lemma classify_query_first_matching_group:
  "classify_query q = first_matching_group priority_groups (lower q)"
  by (simp add: classify_query_def priority_groups_def Let_def)

lemma priority_order:
  "map fst priority_groups =
    [BEHAVIORAL, TECHNICAL, PROJECT_SPECIFIC, COMPANY_SPECIFIC, SALARY_LOCATION, AVAILABILITY]"
  by (simp add: priority_groups_def)

text \<open>
  Claim C3.  \<open>classify_query\<close> is a function of the question alone: it returns a query type
  for every question, and equal questions get equal types.  The result is the type of the
  first group, in the order BEHAVIORAL, TECHNICAL, PROJECT\_SPECIFIC, COMPANY\_SPECIFIC,
  SALARY\_LOCATION, AVAILABILITY, one of whose patterns matches the lower-cased question: a
  matching group decides whenever no group before it matches, whatever the groups after it
  do.  The result is GENERAL exactly when no group matches.
\<close>

theorem classify_query_priority:
  "classify_query q = first_matching_group priority_groups (lower q)
   \<and> map fst priority_groups =
       [BEHAVIORAL, TECHNICAL, PROJECT_SPECIFIC, COMPANY_SPECIFIC, SALARY_LOCATION, AVAILABILITY]
   \<and> classify_query q \<in> {BEHAVIORAL, TECHNICAL, PROJECT_SPECIFIC, COMPANY_SPECIFIC,
        SALARY_LOCATION, AVAILABILITY, GENERAL}
   \<and> (\<forall>i < length priority_groups.
        any_search (snd (priority_groups ! i)) (lower q)
        \<and> (\<forall>j < i. \<not> any_search (snd (priority_groups ! j)) (lower q))
        \<longrightarrow> classify_query q = fst (priority_groups ! i))
   \<and> (classify_query q = GENERAL
        \<longleftrightarrow> (\<forall>g \<in> set priority_groups. \<not> any_search (snd g) (lower q)))
   \<and> (q = q' \<longrightarrow> classify_query q = classify_query q')"
proof (intro conjI allI impI)
  show "classify_query q = first_matching_group priority_groups (lower q)"
    by (rule classify_query_first_matching_group)
  show "map fst priority_groups =
       [BEHAVIORAL, TECHNICAL, PROJECT_SPECIFIC, COMPANY_SPECIFIC, SALARY_LOCATION, AVAILABILITY]"
    by (rule priority_order)
  have "classify_query q \<in> insert GENERAL (fst ` set priority_groups)"
    unfolding classify_query_first_matching_group by (rule first_matching_group_range)
  also have "fst ` set priority_groups = set (map fst priority_groups)"
    by simp
  finally show "classify_query q \<in> {BEHAVIORAL, TECHNICAL, PROJECT_SPECIFIC, COMPANY_SPECIFIC,
        SALARY_LOCATION, AVAILABILITY, GENERAL}"
    unfolding priority_order by auto
next
  fix i
  assume "i < length priority_groups"
    and "any_search (snd (priority_groups ! i)) (lower q)
        \<and> (\<forall>j < i. \<not> any_search (snd (priority_groups ! j)) (lower q))"
  then show "classify_query q = fst (priority_groups ! i)"
    unfolding classify_query_first_matching_group by (simp add: first_matching_group_at)
next
  have no_general: "GENERAL \<notin> fst ` set priority_groups"
  proof -
    have "fst ` set priority_groups = set (map fst priority_groups)"
      by simp
    then show ?thesis
      unfolding priority_order by simp
  qed
  show "classify_query q = GENERAL
        \<longleftrightarrow> (\<forall>g \<in> set priority_groups. \<not> any_search (snd g) (lower q))"
    unfolding classify_query_first_matching_group
    using first_matching_group_general [OF _ no_general] first_matching_group_none
    by blast
next
  assume "q = q'"
  then show "classify_query q = classify_query q'"
    by simp
qed

theorem classify_query_priority_witness:
  "classify_query ''Tell me about a time you had to build a database'' = BEHAVIORAL
   \<and> any_search technical_patterns (lower ''Tell me about a time you had to build a database'')
   \<and> first_matching_group priority_groups
        (lower ''Tell me about a time you had to build a database'') = BEHAVIORAL
   \<and> classify_query ''What is your favourite colour?'' = TECHNICAL
   \<and> classify_query ''Hello there'' = GENERAL"
proof -
  have "classify_query ''Tell me about a time you had to build a database'' = BEHAVIORAL"
    by code_simp
  moreover have "any_search technical_patterns
      (lower ''Tell me about a time you had to build a database'')"
    by code_simp
  moreover have "classify_query ''What is your favourite colour?'' = TECHNICAL"
    by code_simp
  moreover have "classify_query ''Hello there'' = GENERAL"
    by code_simp
  ultimately show ?thesis
    using classify_query_priority [of "''Tell me about a time you had to build a database''"]
    by simp
qed

section \<open>Response quality scores\<close>








text \<open>An example: a short answer to a behavioral question, for a technical role.\<close>

lemma analyze_response_quality_example:
  "component_scores (analyze_response_quality
      ''As a result I led the team and improved performance by 20%.''
      ''Tell me about a time you led a team''
      \<lparr>ctx_role_type = Some ''technical'', ctx_company = Some ''Xero'',
        ctx_key_skills = Some [''React'']\<rparr>) =
    \<lparr>score_content = 45, score_structure = 65, score_impact = 60, score_engagement = 0\<rparr>"
  by code_simp

section \<open>The learning question, end to end\<close>

subsection \<open>Scanning piece by piece\<close>

text \<open>
  The substring test is the sublist relation; the scans by pieces compute the word count,
  the substring test and the pattern search of the concatenation.
\<close>

lemma str_in_sublist: "str_in k s \<longleftrightarrow> sublist k s"
  by (induction s) (simp_all add: sublist_Cons_right)

lemma str_in_lower: "str_in k s \<Longrightarrow> str_in (lower k) (lower s)"
  unfolding str_in_sublist lower_def sublist_def by (metis map_append)

lemma length_split_from:
  "length (split_from w s) = word_starts (w \<noteq> []) s + (if w \<noteq> [] then 1 else 0)"
  by (induction s arbitrary: w) simp_all

lemma word_count_word_starts: "word_count s = word_starts False s"
  by (simp add: word_count_def split_def length_split_from)

lemma word_starts_append:
  "word_starts b (s @ t) = word_starts b s + word_starts (in_word_after b s) t"
  by (induction s arbitrary: b) simp_all

lemma in_word_after_append:
  "in_word_after b (s @ t) = in_word_after (in_word_after b s) t"
  by (induction s arbitrary: b) simp_all

lemma word_starts_concat: "word_starts b (concat ps) = word_starts_pieces b ps"
  by (induction ps arbitrary: b) (simp_all add: word_starts_append)

lemma word_count_concat: "word_count (concat ps) = word_starts_pieces False ps"
  by (simp add: word_count_word_starts word_starts_concat)

lemma run_append:
  "run r active (s @ t) = (case run r active s of None \<Rightarrow> None | Some active' \<Rightarrow> run r active' t)"
  by (induction s arbitrary: active) simp_all

lemma run_concat: "run r active (concat ps) = run_pieces r active ps"
  by (induction ps arbitrary: active) (simp_all add: run_append split: option.splits)

lemma search_concat: "search r (concat ps) = search_pieces r ps"
  by (simp add: search_def search_pieces_def run_concat)

lemma str_in_Nil [simp]: "str_in [] s"
  by (simp add: str_in_sublist)

lemma str_in_append_left: "str_in k a \<Longrightarrow> str_in k (a @ b)"
  unfolding str_in_sublist sublist_def by (metis append.assoc)

lemma keep_last_Cons_long: "n \<le> length a \<Longrightarrow> keep_last n (c # a) = keep_last n a"
  by (simp add: keep_last_def Suc_diff_le)

lemma keep_last_short: "length a \<le> n \<Longrightarrow> keep_last n a = a"
  by (simp add: keep_last_def)

lemma prefix_append_short: "prefix k (a @ b) \<Longrightarrow> length k \<le> length a \<Longrightarrow> prefix k a"
  by (auto simp: prefix_append)

lemma str_in_append:
  "str_in k (a @ b) \<longleftrightarrow> str_in k a \<or> str_in k (keep_last (length k - 1) a @ b)"
proof (induction a)
  case Nil
  show ?case by (cases "k = []") (simp_all add: keep_last_def)
next
  case (Cons c a)
  let ?n = "length k - 1"
  show ?case
  proof (cases "?n \<le> length a")
    case True
    have whole: "str_in k ((c # a) @ b) \<longleftrightarrow> prefix k (c # a @ b) \<or> str_in k (a @ b)"
      by (simp only: append_Cons str_in.simps)
    have left: "str_in k (c # a) \<longleftrightarrow> prefix k (c # a) \<or> str_in k a"
      by (rule str_in.simps)
    have "keep_last ?n (c # a) = keep_last ?n a"
      by (rule keep_last_Cons_long [OF True])
    then have right:
      "str_in k (keep_last ?n (c # a) @ b) \<longleftrightarrow> str_in k (keep_last ?n a @ b)"
      by (simp only:)
    have len: "length k \<le> length (c # a)"
      using True by simp
    have pre: "prefix k (c # a @ b) \<longleftrightarrow> prefix k (c # a)"
      using prefix_append_short [of k "c # a" b] prefix_prefix [of k "c # a" b] len by auto
    show ?thesis
      by (simp only: whole left right pre Cons.IH disj_assoc)
  next
    case False
    then have "length (c # a) \<le> ?n"
      by simp
    then have whole: "keep_last ?n (c # a) = c # a"
      by (rule keep_last_short)
    show ?thesis
      unfolding whole using str_in_append_left [of k "c # a" b] by blast
  qed
qed

lemma str_in_carry_concat: "str_in k (carry @ concat ps) = str_in_pieces k carry ps"
proof (induction ps arbitrary: carry)
  case Nil
  show ?case by simp
next
  case (Cons p ps)
  have "str_in k (carry @ concat (p # ps)) = str_in k ((carry @ p) @ concat ps)" by simp
  also have "\<dots> \<longleftrightarrow> str_in k (carry @ p) \<or> str_in k (keep_last (length k - 1) (carry @ p) @ concat ps)"
    by (rule str_in_append)
  also have "\<dots> = str_in_pieces k carry (p # ps)"
    by (simp add: Cons)
  finally show ?case .
qed

lemma str_in_concat: "str_in k (concat ps) = str_in_pieces k [] ps"
  using str_in_carry_concat [of k "[]" ps] by simp

subsection \<open>What the fixed learning answer contains\<close>

lemma learning_word_count: "word_count format_learning_response = 251"
  unfolding format_learning_response_def word_count_concat by code_simp

lemma learning_mentions_ausbiz: "str_in ''ausbiz Consulting'' format_learning_response"
  unfolding format_learning_response_def str_in_concat by code_simp

lemma learning_mentions_weeks: "str_in ''10 weeks'' format_learning_response"
  unfolding format_learning_response_def str_in_concat by code_simp

lemma learning_says_I: "str_in ''I '' format_learning_response"
  unfolding format_learning_response_def str_in_concat by code_simp

lemma learning_has_digits: "search (plus (Sym Digit)) format_learning_response"
  unfolding format_learning_response_def search_concat by code_simp

lemma learning_says_Situation: "str_in ''Situation'' format_learning_response"
  unfolding format_learning_response_def str_in_concat by code_simp

lemma learning_says_Task: "str_in ''Task'' format_learning_response"
  unfolding format_learning_response_def str_in_concat by code_simp

lemma learning_no_Google: "\<not> str_in ''Google'' format_learning_response"
  unfolding format_learning_response_def str_in_concat by code_simp

lemma learning_no_Microsoft: "\<not> str_in ''Microsoft'' format_learning_response"
  unfolding format_learning_response_def str_in_concat by code_simp

lemma learning_no_Amazon: "\<not> str_in ''Amazon'' format_learning_response"
  unfolding format_learning_response_def str_in_concat by code_simp

lemma learning_no_years_of_experience:
  "\<not> search (seqs [plus (Sym Digit), Star (Sym Whitespace), lit ''year'', opt (lit ''s''),
                    lit '' of experience'']) format_learning_response"
  unfolding format_learning_response_def search_concat by code_simp

subsection \<open>The validator on the fixed learning answer\<close>

lemma lower_Situation: "lower ''Situation'' = ''situation''"
  by code_simp

lemma lower_Task: "lower ''Task'' = ''task''"
  by code_simp

lemma learning_first_person: "has_first_person_perspective format_learning_response"
  unfolding has_first_person_perspective_def any_in_def
  using learning_says_I by simp

lemma learning_specific_details: "has_specific_details format_learning_response"
  unfolding has_specific_details_def using learning_has_digits by (rule disjI1)

lemma learning_length_issue:
  "check_response_length format_learning_response BEHAVIORAL =
     Some ''Behavioral response too long (should be 120-200 words)''"
  by (simp add: check_response_length_def learning_word_count)

lemma learning_star_structure: "has_star_structure format_learning_response"
proof -
  have "str_in ''situation'' (lower format_learning_response)"
    using str_in_lower [OF learning_says_Situation] by (simp only: lower_Situation)
  moreover have "str_in ''task'' (lower format_learning_response)"
    using str_in_lower [OF learning_says_Task] by (simp only: lower_Task)
  ultimately have "count_in [''situation'', ''task'', ''action'', ''result'']
      (lower format_learning_response) \<ge> 2"
    by (simp add: count_in_def)
  then show ?thesis
    unfolding has_star_structure_def Let_def by (rule disjI1)
qed

lemma learning_no_hallucinations: "check_for_hallucinations format_learning_response = []"
  by (simp only: check_for_hallucinations_def Let_def learning_no_Google learning_no_Microsoft
      learning_no_Amazon learning_no_years_of_experience simp_thms if_False)

lemma validate_learning_response:
  "validate_response format_learning_response BEHAVIORAL =
     \<lparr>is_valid = False,
      issues = [''Behavioral response too long (should be 120-200 words)''],
      suggestions = [''Adjust response length to match question complexity''],
      authenticity_score = calculate_authenticity_score format_learning_response\<rparr>"
  by (simp add: validate_response_def learning_first_person learning_specific_details
      learning_length_issue learning_star_structure learning_no_hallucinations)

lemma learning_question_behavioral:
  "classify_query ''Tell me about a time you learned something quickly'' = BEHAVIORAL"
  by code_simp

lemma learning_question_not_challenging:
  "\<not> any_in [''challenging'', ''difficult'', ''problem'']
       (lower ''Tell me about a time you learned something quickly'')"
  by code_simp

lemma learning_question_learn:
  "any_in [''learn'', ''technology'', ''quickly'']
     (lower ''Tell me about a time you learned something quickly'')"
  by code_simp

lemma learning_question_response:
  "generate_behavioral_response py_str ''Tell me about a time you learned something quickly'' context
     = format_learning_response"
  by (simp only: generate_behavioral_response_def Let_def learning_question_not_challenging
      learning_question_learn if_True if_False)

subsection \<open>The scenario\<close>

lemma learning_question_pipeline:
  "process_interview_question kb py_str ''Tell me about a time you learned something quickly'' None =
     Inr \<lparr>ir_question = ''Tell me about a time you learned something quickly'',
          ir_query_type = ''behavioral'',
          ir_response = format_learning_response,
          ir_validation = validate_response format_learning_response BEHAVIORAL,
          ir_context_used =
            map (\<lambda>item. dict_get item ''title'' (JStr ''Unknown''))
              (extract_relevant_context kb ''Tell me about a time you learned something quickly''
                 BEHAVIORAL),
          ir_company_context = None\<rparr>"
  by (simp only: process_interview_question_def Let_def learning_question_behavioral
      learning_question_response if_True simp_thms jval.case option.case query_type_value.simps)

text \<open>
  Claim C5, as the code has it.  For the question ``Tell me about a time you learned
  something quickly'' the classifier answers BEHAVIORAL and the generator returns the fixed
  learning answer, whatever the context.  That answer contains ``ausbiz Consulting'' and
  ``10 weeks'' and has 251 words, which lies between 120 and 300 but is one word more than
  the 250 words the validator accepts for a behavioural answer: \<open>validate_response\<close>
  reports the single issue ``Behavioral response too long (should be 120-200 words)'' and
  \<open>is_valid = False\<close>.  \<open>process_interview_question\<close> without a company context
  returns this answer together with this validation.
\<close>

theorem learning_question_scenario:
  "classify_query ''Tell me about a time you learned something quickly'' = BEHAVIORAL
   \<and> generate_behavioral_response py_str ''Tell me about a time you learned something quickly''
         context = format_learning_response
   \<and> str_in ''ausbiz Consulting'' format_learning_response
   \<and> str_in ''10 weeks'' format_learning_response
   \<and> word_count format_learning_response = 251
   \<and> issues (validate_response format_learning_response BEHAVIORAL) =
         [''Behavioral response too long (should be 120-200 words)'']
   \<and> is_valid (validate_response format_learning_response BEHAVIORAL) = False
   \<and> process_interview_question kb py_str
         ''Tell me about a time you learned something quickly'' None =
       Inr \<lparr>ir_question = ''Tell me about a time you learned something quickly'',
            ir_query_type = ''behavioral'',
            ir_response = format_learning_response,
            ir_validation = validate_response format_learning_response BEHAVIORAL,
            ir_context_used =
              map (\<lambda>item. dict_get item ''title'' (JStr ''Unknown''))
                (extract_relevant_context kb
                   ''Tell me about a time you learned something quickly'' BEHAVIORAL),
            ir_company_context = None\<rparr>"
proof (intro conjI)
  show "classify_query ''Tell me about a time you learned something quickly'' = BEHAVIORAL"
    by (fact learning_question_behavioral)
  show "generate_behavioral_response py_str ''Tell me about a time you learned something quickly''
      context = format_learning_response"
    by (fact learning_question_response)
  show "str_in ''ausbiz Consulting'' format_learning_response"
    by (fact learning_mentions_ausbiz)
  show "str_in ''10 weeks'' format_learning_response"
    by (fact learning_mentions_weeks)
  show "word_count format_learning_response = 251"
    by (fact learning_word_count)
  show "issues (validate_response format_learning_response BEHAVIORAL) =
      [''Behavioral response too long (should be 120-200 words)'']"
    by (simp only: validate_learning_response ValidationResult.simps)
  show "is_valid (validate_response format_learning_response BEHAVIORAL) = False"
    by (simp only: validate_learning_response ValidationResult.simps)
  show "process_interview_question kb py_str
      ''Tell me about a time you learned something quickly'' None =
    Inr \<lparr>ir_question = ''Tell me about a time you learned something quickly'',
         ir_query_type = ''behavioral'',
         ir_response = format_learning_response,
         ir_validation = validate_response format_learning_response BEHAVIORAL,
         ir_context_used =
           map (\<lambda>item. dict_get item ''title'' (JStr ''Unknown''))
             (extract_relevant_context kb
                ''Tell me about a time you learned something quickly'' BEHAVIORAL),
         ir_company_context = None\<rparr>"
    by (fact learning_question_pipeline)
qed

text \<open>
  The scenario as the specification words it fails at its last step: the answer the
  generator returns for this question, with no context at all, is not valid for the
  validator, because it has 251 words.
\<close>

theorem learning_response_not_valid:
  "is_valid
     (validate_response
        (generate_behavioral_response (\<lambda>v. [])
           ''Tell me about a time you learned something quickly'' [])
        BEHAVIORAL) = False
   \<and> word_count
        (generate_behavioral_response (\<lambda>v. [])
           ''Tell me about a time you learned something quickly'' []) = 251"
  by (simp only: learning_question_response validate_learning_response learning_word_count
      ValidationResult.simps simp_thms)

end
